theory Spec2Isabelle
  imports Complex_Main
begin

section \<open>Tables, columns and errors\<close>

text \<open>
  The module \<^verbatim>\<open>pyneon/preprocess/preprocess.py\<close> works on pandas tables. A table is
  modelled as its row index and its ordered list of named columns; a column carries its
  dtype and its values. Python and numpy integers are modelled as unbounded integers
  (timestamps in nanoseconds stay far below \<open>2^63\<close>). A float64 is modelled as a rational
  number, with one extra value for NaN. Nanosecond timestamps of today are near
  \<open>1.7 * 10^18\<close>, where neighbouring float64 values are 256 apart: wherever the code
  turns a timestamp into a float64 or computes with such floats, the model rounds to the
  nearest float64 (\<open>fl\<close> below). Arithmetic on the cell values themselves is exact:
  the rounding of the last digit of a mean or of an interpolated value is not modelled.
  \<open>VStr\<close> stands for a Python string that does not parse as a number. \<open>VNaN\<close> is
  \<^verbatim>\<open>np.nan\<close>, the missing marker of float and object columns, and \<open>VNA\<close> is
  \<^verbatim>\<open>pd.NA\<close>, the missing marker of the nullable integer dtype.
\<close>

datatype error =
    ValueError string
  | IndexError
  | ZeroDivisionError
  | TypeError
  | IntCastingNaNError
  | AssertionError
  | NotModelled

datatype dtype = Float64 | Int64 | NullableInt64 | Object

datatype val = VInt int | VFloat rat | VNaN | VNA | VStr string

record column =
  col_dtype :: dtype
  col_vals :: "val list"

record frame =
  index :: "int list"
  columns :: "(string \<times> column) list"

type_synonym float64 = "rat option"

definition nrows :: "frame \<Rightarrow> nat" where
  "nrows df = length (index df)"

definition range_index :: "nat \<Rightarrow> int list" where
  "range_index n = map int [0..<n]"

fun wt_val :: "dtype \<Rightarrow> val \<Rightarrow> bool" where
  "wt_val Float64 (VFloat r) = True"
| "wt_val Float64 VNaN = True"
| "wt_val Int64 (VInt i) = True"
| "wt_val NullableInt64 (VInt i) = True"
| "wt_val NullableInt64 VNA = True"
| "wt_val Object v = True"
| "wt_val d v = False"

definition wt_column :: "column \<Rightarrow> bool" where
  "wt_column c = list_all (wt_val (col_dtype c)) (col_vals c)"

fun traverse :: "('a \<Rightarrow> error + 'b) \<Rightarrow> 'a list \<Rightarrow> error + 'b list" where
  "traverse f [] = Inr []"
| "traverse f (x # xs) =
     (case f x of
        Inl e \<Rightarrow> Inl e
      | Inr y \<Rightarrow> (case traverse f xs of Inl e \<Rightarrow> Inl e | Inr ys \<Rightarrow> Inr (y # ys)))"

text \<open>The number in a cell; a missing cell has none, a string is refused.\<close>

fun to_float :: "val \<Rightarrow> error + float64" where
  "to_float (VInt i) = Inr (Some (of_int i))"
| "to_float (VFloat r) = Inr (Some r)"
| "to_float VNaN = Inr None"
| "to_float VNA = Inr None"
| "to_float (VStr s) = Inl (ValueError ''could not convert string to float'')"

fun of_float :: "float64 \<Rightarrow> val" where
  "of_float None = VNaN"
| "of_float (Some r) = VFloat r"

text \<open>Python's \<^verbatim>\<open>int(x)\<close> on a finite float truncates towards zero.\<close>

definition py_int :: "rat \<Rightarrow> int" where
  "py_int r = (if 0 \<le> r then \<lfloor>r\<rfloor> else \<lceil>r\<rceil>)"

text \<open>
  The timestamp column holds integers. A timestamp column with any other cell is outside
  the model.
\<close>

fun int_cell :: "val \<Rightarrow> error + int" where
  "int_cell (VInt i) = Inr i"
| "int_cell v = Inl NotModelled"

definition int_values :: "column \<Rightarrow> error + int list" where
  "int_values c = traverse int_cell (col_vals c)"

section \<open>\<^verbatim>\<open>_check_data\<close>\<close>

text \<open>
  \<^verbatim>\<open>np.diff(col) < 0\<close>: a difference with a NaN operand is NaN and compares false;
  a string cell makes the subtraction raise.
\<close>

fun any_decrease :: "val list \<Rightarrow> error + bool" where
  "any_decrease (a # b # rest) =
     (case to_float a of
        Inl e \<Rightarrow> Inl TypeError
      | Inr fa \<Rightarrow>
        (case to_float b of
           Inl e \<Rightarrow> Inl TypeError
         | Inr fb \<Rightarrow>
           (case any_decrease (b # rest) of
              Inl e \<Rightarrow> Inl e
            | Inr r \<Rightarrow>
              Inr ((case (fa, fb) of (Some x, Some y) \<Rightarrow> y - x < 0 | _ \<Rightarrow> False) \<or> r))))"
| "any_decrease xs = Inr False"

definition check_data :: "frame \<Rightarrow> string \<Rightarrow> error + unit" where
  "check_data data t_col_name =
     (case map_of (columns data) t_col_name of
        None \<Rightarrow> Inl (ValueError (''Data must contain a '' @ t_col_name @ '' column''))
      | Some c \<Rightarrow>
        (case any_decrease (col_vals c) of
           Inl e \<Rightarrow> Inl e
         | Inr True \<Rightarrow>
             Inl (ValueError (t_col_name @ '' must be monotonically increasing''))
         | Inr False \<Rightarrow> Inr ()))"

section \<open>Rounding to float64\<close>

text \<open>
  \<open>fl r\<close> is the float64 nearest to \<open>r\<close>, ties going to the even significand
  (IEEE 754 binary64 with its 53-bit significand; overflow and subnormal numbers are not
  modelled). \<open>exponent r\<close> is the \<open>e\<close> with \<open>2^e \<le> |r| < 2^(e + 1)\<close>.
\<close>

function bit_length :: "int \<Rightarrow> nat" where
  "bit_length k = (if k \<le> 0 then 0 else Suc (bit_length (k div 2)))"
  by pat_completeness auto
termination
  by (relation "measure nat") auto

declare bit_length.simps [simp del]

definition pow2 :: "int \<Rightarrow> rat" where
  "pow2 e = (if 0 \<le> e then 2 ^ nat e else 1 / 2 ^ nat (- e))"

definition exponent :: "rat \<Rightarrow> int" where
  "exponent r =
     (let a = \<bar>r\<bar> in
      if 1 \<le> a then int (bit_length \<lfloor>a\<rfloor>) - 1
      else - int (bit_length (\<lceil>1 / a\<rceil> - 1)))"

definition round_half_even :: "rat \<Rightarrow> int" where
  "round_half_even m =
     (let f = \<lfloor>m\<rfloor>; d = m - of_int f in
      if d < 1 / 2 then f
      else if 1 / 2 < d then f + 1
      else if even f then f else f + 1)"

definition fl :: "rat \<Rightarrow> rat" where
  "fl r =
     (if r = 0 then 0
      else let q = pow2 (exponent r - 52) in of_int (round_half_even (r / q)) * q)"

text \<open>An int64 converted to float64.\<close>

definition to_double :: "int \<Rightarrow> rat" where
  "to_double t = fl (of_int t)"

section \<open>\<^verbatim>\<open>scipy.interpolate.interp1d\<close> with \<^verbatim>\<open>bounds_error=False\<close>\<close>

text \<open>
  The library function is modelled for the kinds \<^verbatim>\<open>"linear"\<close> and \<^verbatim>\<open>"nearest"\<close>,
  which are the defaults of \<^verbatim>\<open>interpolate\<close>. The abscissae are the int64 timestamps
  of the source and reach it sorted, since \<^verbatim>\<open>_check_data\<close> has accepted them; the
  ordinates are converted to float64 first (\<^verbatim>\<open>y.astype(np.float64)\<close>). Queries below
  the first or above the last abscissa are filled with NaN; that comparison is one of
  integers. Everything else works on float64: the linear kind is evaluated by
  \<^verbatim>\<open>numpy.interp\<close>, which converts abscissae and queries to float64, takes as segment
  the last \<open>j\<close> with \<open>x[j] \<le> x_new\<close>, returns \<open>y[j]\<close> for a query that hits
  \<open>x[j]\<close>, and makes the rest of a segment with a NaN end point NaN. The nearest kind
  looks the query up among the midpoints \<^verbatim>\<open>x[1:] / 2.0 + x[:-1] / 2.0\<close> of consecutive
  abscissae (\<^verbatim>\<open>searchsorted\<close>, left side) and clips the position. Timestamps that
  round to the same float64 are one abscissa to both kinds.
\<close>

datatype interp_kind = Linear | Nearest

definition searchsorted :: "rat list \<Rightarrow> rat \<Rightarrow> nat" where
  "searchsorted xs v = length (takeWhile (\<lambda>a. a < v) xs)"

definition clip :: "nat \<Rightarrow> nat \<Rightarrow> nat \<Rightarrow> nat" where
  "clip lo hi i = min (max i lo) hi"

definition call_linear :: "rat list \<Rightarrow> float64 list \<Rightarrow> rat \<Rightarrow> float64" where
  "call_linear xs ys v =
     (let c = length (takeWhile (\<lambda>a. a \<le> v) xs) in
      if c = 0 then ys ! 0
      else if c = length xs then ys ! (c - 1)
      else
        let j = c - 1 in
        if xs ! j = v then ys ! j
        else
          (case (ys ! j, ys ! (j + 1)) of
             (Some y0, Some y1) \<Rightarrow>
               Some ((y1 - y0) / (xs ! (j + 1) - xs ! j) * (v - xs ! j) + y0)
           | _ \<Rightarrow> None))"

definition x_bds :: "rat list \<Rightarrow> rat list" where
  "x_bds xs = map (\<lambda>(a, b). fl (a / 2 + b / 2)) (zip (tl xs) (butlast xs))"

definition call_nearest :: "rat list \<Rightarrow> float64 list \<Rightarrow> rat \<Rightarrow> float64" where
  "call_nearest xs ys v = ys ! clip 0 (length xs - 1) (searchsorted (x_bds xs) v)"

definition interp_at :: "interp_kind \<Rightarrow> int list \<Rightarrow> float64 list \<Rightarrow> int \<Rightarrow> float64" where
  "interp_at kind x ys v =
     (if v < hd x \<or> last x < v then None
      else (case kind of
              Linear \<Rightarrow> call_linear (map to_double x) ys (to_double v)
            | Nearest \<Rightarrow> call_nearest (map to_double x) ys (to_double v)))"

text \<open>\<^verbatim>\<open>y.astype(np.float64)\<close> on one cell: an integer is rounded to float64.\<close>

fun to_float64 :: "val \<Rightarrow> error + float64" where
  "to_float64 (VInt i) = Inr (Some (to_double i))"
| "to_float64 (VFloat r) = Inr (Some r)"
| "to_float64 VNaN = Inr None"
| "to_float64 VNA = Inr None"
| "to_float64 (VStr s) = Inl (ValueError ''could not convert string to float'')"

definition interp1d ::
  "interp_kind \<Rightarrow> int list \<Rightarrow> val list \<Rightarrow> int list \<Rightarrow> error + float64 list" where
  "interp1d kind x y x_new =
     (if length x \<noteq> length y
      then Inl (ValueError ''x and y arrays must be equal in length along interpolation axis.'')
      else
        (case traverse to_float64 y of
           Inl e \<Rightarrow> Inl e
         | Inr ys \<Rightarrow>
           if x = [] then Inl (ValueError ''x and y arrays must have at least 1 entries'')
           else Inr (map (interp_at kind x ys) x_new)))"

section \<open>\<^verbatim>\<open>astype\<close>\<close>

text \<open>
  Casting a float64 array to the dtype of the source column. A NaN has no numpy integer:
  pandas raises \<^verbatim>\<open>IntCastingNaNError\<close>. The nullable integer dtype takes NaN as
  missing and refuses a value with a fractional part.
\<close>

definition astype :: "dtype \<Rightarrow> float64 list \<Rightarrow> error + column" where
  "astype d ys =
     (case d of
        Float64 \<Rightarrow> Inr \<lparr>col_dtype = Float64, col_vals = map of_float ys\<rparr>
      | Int64 \<Rightarrow>
          if None \<in> set ys then Inl IntCastingNaNError
          else Inr \<lparr>col_dtype = Int64, col_vals = map (\<lambda>y. VInt (py_int (the y))) ys\<rparr>
      | NullableInt64 \<Rightarrow>
          if list_ex (\<lambda>y. case y of None \<Rightarrow> False | Some r \<Rightarrow> of_int \<lfloor>r\<rfloor> \<noteq> r) ys
          then Inl TypeError
          else Inr \<lparr>col_dtype = NullableInt64,
                    col_vals = map (\<lambda>y. case y of None \<Rightarrow> VNA | Some r \<Rightarrow> VInt \<lfloor>r\<rfloor>) ys\<rparr>
      | Object \<Rightarrow> Inr \<lparr>col_dtype = Object, col_vals = map of_float ys\<rparr>)"

section \<open>\<^verbatim>\<open>interpolate\<close>\<close>

definition is_time_col :: "string \<Rightarrow> bool" where
  "is_time_col name = (name = ''timestamp [ns]'' \<or> name = ''time [s]'')"

definition value_columns :: "frame \<Rightarrow> (string \<times> column) list" where
  "value_columns data = filter (\<lambda>(name, c). \<not> is_time_col name) (columns data)"

text \<open>
  The two time columns every resampled table starts with:
  \<^verbatim>\<open>pd.DataFrame(data=new_ts, columns=["timestamp [ns]"], dtype="Int64")\<close> and
  \<^verbatim>\<open>(new_ts - new_ts[0]) / 1e9\<close>. Reading \<^verbatim>\<open>new_ts[0]\<close> of an empty array raises.
\<close>

definition time_columns :: "int list \<Rightarrow> error + (string \<times> column) list" where
  "time_columns new_ts =
     (case new_ts of
        [] \<Rightarrow> Inl IndexError
      | t0 # _ \<Rightarrow>
          Inr [(''timestamp [ns]'', \<lparr>col_dtype = NullableInt64, col_vals = map VInt new_ts\<rparr>),
               (''time [s]'',
                \<lparr>col_dtype = Float64,
                 col_vals = map (\<lambda>t. VFloat (of_int (t - t0) / 1000000000)) new_ts\<rparr>)])"

definition interpolate_column ::
  "interp_kind \<Rightarrow> interp_kind \<Rightarrow> int list \<Rightarrow> int list \<Rightarrow> string \<times> column \<Rightarrow>
   error + (string \<times> column)" where
  "interpolate_column float_kind other_kind x new_ts nc =
     (case nc of (name, c) \<Rightarrow>
        (case interp1d (if col_dtype c = Float64 then float_kind else other_kind)
                x (col_vals c) new_ts of
           Inl e \<Rightarrow> Inl e
         | Inr ys \<Rightarrow>
           (case astype (col_dtype c) ys of
              Inl e \<Rightarrow> Inl e
            | Inr c' \<Rightarrow> Inr (name, c'))))"

definition interpolate ::
  "int list \<Rightarrow> frame \<Rightarrow> interp_kind \<Rightarrow> interp_kind \<Rightarrow> error + frame" where
  "interpolate new_ts data float_kind other_kind =
     (case check_data data ''timestamp [ns]'' of
        Inl e \<Rightarrow> Inl e
      | Inr _ \<Rightarrow>
        let new_ts = sort new_ts in
        (case time_columns new_ts of
           Inl e \<Rightarrow> Inl e
         | Inr tcols \<Rightarrow>
           (case int_values (the (map_of (columns data) ''timestamp [ns]'')) of
              Inl e \<Rightarrow> Inl e
            | Inr x \<Rightarrow>
              (case traverse (interpolate_column float_kind other_kind x new_ts)
                      (value_columns data) of
                 Inl e \<Rightarrow> Inl e
               | Inr vcols \<Rightarrow>
                   Inr \<lparr>index = range_index (length new_ts), columns = tcols @ vcols\<rparr>))))"

section \<open>Recordings\<close>

text \<open>
  The recording object and its stream and event objects are defined outside this module.
  A stream exposes its table, its nominal sampling frequency (an integer number of hertz)
  and its first and last timestamp; an event object exposes its table. Absent members
  are \<open>None\<close>.
\<close>

record stream =
  stream_data :: frame
  sampling_freq_nominal :: int
  first_ts :: int
  last_ts :: int

record recording =
  gaze :: "stream option"
  eye_states :: "stream option"
  imu :: "stream option"
  blinks :: "frame option"
  fixations :: "frame option"
  saccades :: "frame option"
  events :: "frame option"

text \<open>
  Modelled from the spec: the method \<^verbatim>\<open>interpolate\<close> of a stream object, which
  \<^verbatim>\<open>concat_streams\<close> calls and which is not part of this module. It resamples the
  stream's table with the module's \<^verbatim>\<open>interpolate\<close> and, only when asked to work in
  place, stores the result as the stream's table.
\<close>

definition stream_interpolate ::
  "stream \<Rightarrow> int list \<Rightarrow> interp_kind \<Rightarrow> interp_kind \<Rightarrow> bool \<Rightarrow> error + (frame \<times> stream)" where
  "stream_interpolate s new_ts float_kind other_kind inplace =
     (case interpolate new_ts (stream_data s) float_kind other_kind of
        Inl e \<Rightarrow> Inl e
      | Inr df \<Rightarrow> Inr (df, if inplace then s\<lparr>stream_data := df\<rparr> else s))"

section \<open>\<^verbatim>\<open>concat_streams\<close>\<close>

text \<open>
  An argument that is either one string or a list of strings, and a sampling frequency
  that is either a string or a number. Numbers are Python integers here, as the nominal
  frequencies are; for an integer \<open>sf\<close> of at most \<open>10^9\<close> in absolute value the float
  quotient \<^verbatim>\<open>1e9 / sf\<close> is never rounded across an integer, so \<^verbatim>\<open>int(1e9 / sf)\<close>
  is the exact quotient truncated.
\<close>

datatype names_arg = NameStr string | NameList "string list"

datatype freq_arg = FreqStr string | FreqNum int

definition lower_char :: "char \<Rightarrow> char" where
  "lower_char c =
     (let n = (of_char c :: nat) in if 65 \<le> n \<and> n \<le> 90 then char_of (n + 32) else c)"

definition lower :: "string \<Rightarrow> string" where
  "lower s = map lower_char s"

definition VALID_STREAMS :: "string list" where
  "VALID_STREAMS = [''3d_eye_states'', ''eye_states'', ''gaze'', ''imu'']"

datatype stream_key = Gaze | EyeStates | IMU

text \<open>One row of the local table \<^verbatim>\<open>stream_info\<close>; the stream object is named by its key.\<close>

record stream_info =
  info_stream :: stream_key
  info_name :: string
  info_sf :: int
  info_first_ts :: int
  info_last_ts :: int

definition get_stream :: "recording \<Rightarrow> stream_key \<Rightarrow> stream option" where
  "get_stream rec k = (case k of Gaze \<Rightarrow> gaze rec | EyeStates \<Rightarrow> eye_states rec | IMU \<Rightarrow> imu rec)"

definition set_stream :: "recording \<Rightarrow> stream_key \<Rightarrow> stream \<Rightarrow> recording" where
  "set_stream rec k s =
     (case k of
        Gaze \<Rightarrow> rec\<lparr>gaze := Some s\<rparr>
      | EyeStates \<Rightarrow> rec\<lparr>eye_states := Some s\<rparr>
      | IMU \<Rightarrow> rec\<lparr>imu := Some s\<rparr>)"

definition add_stream_info ::
  "recording \<Rightarrow> bool \<Rightarrow> stream_key \<Rightarrow> string \<Rightarrow> string \<Rightarrow> stream_info list \<Rightarrow>
   error + stream_info list" where
  "add_stream_info rec wanted k name msg info =
     (if wanted then
        (case get_stream rec k of
           None \<Rightarrow> Inl (ValueError msg)
         | Some s \<Rightarrow>
             Inr (info @ [\<lparr>info_stream = k, info_name = name,
                           info_sf = sampling_freq_nominal s,
                           info_first_ts = first_ts s, info_last_ts = last_ts s\<rparr>]))
      else Inr info)"

definition collect_stream_info :: "recording \<Rightarrow> string list \<Rightarrow> error + stream_info list" where
  "collect_stream_info rec stream_names =
     (case add_stream_info rec (''gaze'' \<in> set stream_names) Gaze ''gaze''
             ''Cannnot load gaze data.'' [] of
        Inl e \<Rightarrow> Inl e
      | Inr i1 \<Rightarrow>
        (case add_stream_info rec
                (''3d_eye_states'' \<in> set stream_names \<or> ''eye_states'' \<in> set stream_names)
                EyeStates ''3d_eye_states'' ''Cannnot load eye states data.'' i1 of
           Inl e \<Rightarrow> Inl e
         | Inr i2 \<Rightarrow>
             add_stream_info rec (''imu'' \<in> set stream_names) IMU ''imu''
               ''Cannnot load IMU data.'' i2))"

fun list_max :: "int list \<Rightarrow> int" where
  "list_max [] = 0"
| "list_max (x # xs) = fold max xs x"

fun list_min :: "int list \<Rightarrow> int" where
  "list_min [] = 0"
| "list_min (x # xs) = fold min xs x"

definition resolve_sf :: "freq_arg \<Rightarrow> stream_info list \<Rightarrow> error + int" where
  "resolve_sf sampling_freq info =
     (case sampling_freq of
        FreqStr w \<Rightarrow>
          if w = ''min'' then Inr (list_min (map info_sf info))
          else if w = ''max'' then Inr (list_max (map info_sf info))
          else Inl (ValueError ''Invalid sampling_freq, must be 'min', 'max', or numeric'')
      | FreqNum n \<Rightarrow> Inr n)"

text \<open>The step \<^verbatim>\<open>int(1e9 / sf)\<close>; dividing by a zero frequency raises.\<close>

definition timeline_step :: "int \<Rightarrow> error + int" where
  "timeline_step sf =
     (if sf = 0 then Inl ZeroDivisionError else Inr (py_int (1000000000 / of_int sf)))"

text \<open>
  \<^verbatim>\<open>np.arange(start, stop, step, dtype=np.int64)\<close>: \<open>ceil((stop - start) / step)\<close>
  values \<open>start + i * step\<close>, none when that number is not positive; a zero step raises.
\<close>

definition np_arange :: "int \<Rightarrow> int \<Rightarrow> int \<Rightarrow> error + int list" where
  "np_arange start stop step =
     (if step = 0 then Inl ZeroDivisionError
      else Inr (map (\<lambda>i. start + int i * step)
                  [0..<nat \<lceil>(of_int (stop - start) :: rat) / of_int step\<rceil>]))"

text \<open>
  The common timeline of lines 323 to 340: from the latest first timestamp to the
  earliest last timestamp of the selected streams.
\<close>

definition common_timeline :: "stream_info list \<Rightarrow> int \<Rightarrow> error + int list" where
  "common_timeline info sf =
     (let max_first_ts = list_max (map info_first_ts info);
          min_last_ts = list_min (map info_last_ts info)
      in case timeline_step sf of
           Inl e \<Rightarrow> Inl e
         | Inr step \<Rightarrow> np_arange max_first_ts min_last_ts step)"

text \<open>
  \<^verbatim>\<open>pd.merge(concat_data, resamp_df, on=["timestamp [ns]", "time [s]"], how="inner")\<close>
  is reached only after both tables were asserted to have the same timestamp column, whose
  values are distinct: the inner join pairs row \<open>i\<close> with row \<open>i\<close>, and the row
  count asserted after the merge holds. A value column present on both sides gets the
  suffixes \<^verbatim>\<open>_x\<close> and \<^verbatim>\<open>_y\<close>.
\<close>

definition merge_frames :: "frame \<Rightarrow> frame \<Rightarrow> frame" where
  "merge_frames left right =
     (let lnames = map fst (value_columns left);
          rnames = map fst (value_columns right);
          lcols = map (\<lambda>(n, c). (if \<not> is_time_col n \<and> n \<in> set rnames then n @ ''_x'' else n, c))
                    (columns left);
          rcols = map (\<lambda>(n, c). (if n \<in> set lnames then n @ ''_y'' else n, c))
                    (value_columns right)
      in \<lparr>index = range_index (nrows left), columns = lcols @ rcols\<rparr>)"

fun resample_and_merge ::
  "int list \<Rightarrow> interp_kind \<Rightarrow> interp_kind \<Rightarrow> bool \<Rightarrow> stream_info list \<Rightarrow>
   frame \<times> recording \<Rightarrow> error + (frame \<times> recording)" where
  "resample_and_merge new_ts fk ok inplace [] acc = Inr acc"
| "resample_and_merge new_ts fk ok inplace (i # rest) (concat_data, rec) =
     (case get_stream rec (info_stream i) of
        None \<Rightarrow> Inl NotModelled
      | Some s \<Rightarrow>
        (case stream_interpolate s new_ts fk ok inplace of
           Inl e \<Rightarrow> Inl e
         | Inr (resamp_df, s') \<Rightarrow>
             if nrows concat_data \<noteq> nrows resamp_df then Inl AssertionError
             else if map_of (columns concat_data) ''timestamp [ns]''
                     \<noteq> map_of (columns resamp_df) ''timestamp [ns]'' then Inl AssertionError
             else resample_and_merge new_ts fk ok inplace rest
                    (merge_frames concat_data resamp_df, set_stream rec (info_stream i) s')))"

definition resolve_stream_names :: "names_arg \<Rightarrow> error + string list" where
  "resolve_stream_names stream_names =
     (case stream_names of
        NameStr w \<Rightarrow>
          if w = ''all'' then Inr VALID_STREAMS
          else Inl (ValueError
                 ''Invalid stream_names, must be 'all' or a list of stream names.'')
      | NameList l \<Rightarrow> Inr l)"

definition concat_streams ::
  "recording \<Rightarrow> names_arg \<Rightarrow> freq_arg \<Rightarrow> interp_kind \<Rightarrow> interp_kind \<Rightarrow> bool \<Rightarrow>
   error + (frame \<times> recording)" where
  "concat_streams rec stream_names sampling_freq interp_float_kind interp_other_kind inplace =
     (case resolve_stream_names stream_names of
        Inl e \<Rightarrow> Inl e
      | Inr names \<Rightarrow>
        if length names \<le> 1
        then Inl (ValueError ''Must provide at least two streams to concatenate.'')
        else
          let names = map lower names in
          if \<not> list_all (\<lambda>ch. ch \<in> set VALID_STREAMS) names
          then Inl (ValueError ''Invalid stream name'')
          else
            (case collect_stream_info rec names of
               Inl e \<Rightarrow> Inl e
             | Inr info \<Rightarrow>
               (case resolve_sf sampling_freq info of
                  Inl e \<Rightarrow> Inl e
                | Inr sf \<Rightarrow>
                  (case common_timeline info sf of
                     Inl e \<Rightarrow> Inl e
                   | Inr new_ts \<Rightarrow>
                     (case time_columns new_ts of
                        Inl e \<Rightarrow> Inl e
                      | Inr tcols \<Rightarrow>
                          resample_and_merge new_ts interp_float_kind interp_other_kind
                            inplace info
                            (\<lparr>index = range_index (length new_ts), columns = tcols\<rparr>,
                             rec))))))"

section \<open>The timeline as the specification words it\<close>

text \<open>
  The specification gives the step as \<open>round(1e9 / target_frequency)\<close> and the number
  of rows as \<open>ceil((min(last_ts) - max(first_ts)) / step)\<close>. These two definitions
  follow its words, for comparison with \<open>common_timeline\<close>.
\<close>

definition spec_step :: "int \<Rightarrow> int" where
  "spec_step sf = round ((1000000000 :: rat) / of_int sf)"

definition spec_row_count :: "stream_info list \<Rightarrow> int \<Rightarrow> int" where
  "spec_row_count info sf =
     \<lceil>(of_int (list_min (map info_last_ts info) - list_max (map info_first_ts info)) :: rat)
        / of_int (spec_step sf)\<rceil>"

definition result_timestamps :: "error + (frame \<times> recording) \<Rightarrow> val list option" where
  "result_timestamps r =
     (case r of
        Inl e \<Rightarrow> None
      | Inr (df, rec) \<Rightarrow> map_option col_vals (map_of (columns df) ''timestamp [ns]''))"

section \<open>Example recordings\<close>

definition gaze_tab :: frame where
  "gaze_tab = \<lparr>index = [0, 1], columns =
     [(''timestamp [ns]'', \<lparr>col_dtype = Int64, col_vals = [VInt 0, VInt 16666667]\<rparr>),
      (''time [s]'',
       \<lparr>col_dtype = Float64, col_vals = [VFloat 0, VFloat (16666667 / 1000000000)]\<rparr>),
      (''gaze x [px]'', \<lparr>col_dtype = Float64, col_vals = [VFloat 1, VFloat 2]\<rparr>)]\<rparr>"

definition imu_tab :: frame where
  "imu_tab = \<lparr>index = [0, 1], columns =
     [(''timestamp [ns]'', \<lparr>col_dtype = Int64, col_vals = [VInt 0, VInt 16666667]\<rparr>),
      (''gyro x [deg/s]'', \<lparr>col_dtype = Float64, col_vals = [VFloat 3, VFloat 5]\<rparr>)]\<rparr>"

definition rec1 :: recording where
  "rec1 =
     \<lparr>gaze = Some \<lparr>stream_data = gaze_tab, sampling_freq_nominal = 200,
                    first_ts = 0, last_ts = 16666667\<rparr>,
      eye_states = None,
      imu = Some \<lparr>stream_data = imu_tab, sampling_freq_nominal = 110,
                   first_ts = 0, last_ts = 16666667\<rparr>,
      blinks = None, fixations = None, saccades = None, events = None\<rparr>"

definition info1 :: "stream_info list" where
  "info1 =
     [\<lparr>info_stream = Gaze, info_name = ''gaze'', info_sf = 200,
       info_first_ts = 0, info_last_ts = 16666667\<rparr>,
      \<lparr>info_stream = IMU, info_name = ''imu'', info_sf = 110,
       info_first_ts = 0, info_last_ts = 16666667\<rparr>]"

definition out1 :: frame where
  "out1 = \<lparr>index = [0, 1], columns =
     [(''timestamp [ns]'', \<lparr>col_dtype = NullableInt64, col_vals = [VInt 0, VInt 16666666]\<rparr>),
      (''time [s]'',
       \<lparr>col_dtype = Float64, col_vals = [VFloat 0, VFloat (8333333 / 500000000)]\<rparr>),
      (''gaze x [px]'',
       \<lparr>col_dtype = Float64, col_vals = [VFloat 1, VFloat (33333333 / 16666667)]\<rparr>),
      (''gyro x [deg/s]'',
       \<lparr>col_dtype = Float64, col_vals = [VFloat 3, VFloat (83333333 / 16666667)]\<rparr>)]\<rparr>"

text \<open>Two streams whose time spans do not overlap: gaze ends before the IMU starts.\<close>

definition early_tab :: frame where
  "early_tab = \<lparr>index = [0, 1], columns =
     [(''timestamp [ns]'', \<lparr>col_dtype = Int64, col_vals = [VInt 0, VInt 1000000000]\<rparr>),
      (''gaze x [px]'', \<lparr>col_dtype = Float64, col_vals = [VFloat 1, VFloat 2]\<rparr>)]\<rparr>"

definition late_tab :: frame where
  "late_tab = \<lparr>index = [0, 1], columns =
     [(''timestamp [ns]'',
       \<lparr>col_dtype = Int64, col_vals = [VInt 2000000000, VInt 3000000000]\<rparr>),
      (''gyro x [deg/s]'', \<lparr>col_dtype = Float64, col_vals = [VFloat 3, VFloat 5]\<rparr>)]\<rparr>"

definition rec2 :: recording where
  "rec2 =
     \<lparr>gaze = Some \<lparr>stream_data = early_tab, sampling_freq_nominal = 200,
                    first_ts = 0, last_ts = 1000000000\<rparr>,
      eye_states = None,
      imu = Some \<lparr>stream_data = late_tab, sampling_freq_nominal = 110,
                   first_ts = 2000000000, last_ts = 3000000000\<rparr>,
      blinks = None, fixations = None, saccades = None, events = None\<rparr>"

section \<open>Auxiliary definitions and example tables\<close>

text \<open>The numeric reading of a cell, total: \<open>to_float\<close> without the error.\<close>

definition num_of :: "val \<Rightarrow> float64" where
  "num_of v = (case v of VInt i \<Rightarrow> Some (of_int i) | VFloat r \<Rightarrow> Some r | _ \<Rightarrow> None)"

definition returned_rows :: "error + frame \<Rightarrow> nat option" where
  "returned_rows r = (case r of Inl e \<Rightarrow> None | Inr df \<Rightarrow> Some (nrows df))"

text \<open>A table with a float column and an integer column.\<close>

definition mixed_tab :: frame where
  "mixed_tab = \<lparr>index = [0, 1, 2], columns =
     [(''timestamp [ns]'', \<lparr>col_dtype = Int64, col_vals = [VInt 0, VInt 10, VInt 20]\<rparr>),
      (''time [s]'', \<lparr>col_dtype = Float64,
          col_vals = [VFloat 0, VFloat (1 / 100000000), VFloat (2 / 100000000)]\<rparr>),
      (''gaze x [px]'', \<lparr>col_dtype = Float64, col_vals = [VFloat 1, VFloat 2, VNaN]\<rparr>),
      (''worn'', \<lparr>col_dtype = Int64, col_vals = [VInt 1, VInt 0, VInt 1]\<rparr>)]\<rparr>"


text \<open>A table that repeats a timestamp; \<^verbatim>\<open>_check_data\<close> accepts it.\<close>

definition dup_tab :: frame where
  "dup_tab = \<lparr>index = [0, 1, 2], columns =
     [(''timestamp [ns]'', \<lparr>col_dtype = Int64, col_vals = [VInt 0, VInt 0, VInt 10]\<rparr>),
      (''gaze x [px]'', \<lparr>col_dtype = Float64, col_vals = [VFloat 1, VFloat 2, VFloat 3]\<rparr>)]\<rparr>"

section \<open>\<^verbatim>\<open>window_average\<close>\<close>

text \<open>
  \<^verbatim>\<open>np.diff\<close>, \<^verbatim>\<open>np.median\<close> and \<^verbatim>\<open>np.mean\<close> on integer arrays. The median and
  the mean of an empty array are NaN, and a comparison with NaN is false.
\<close>

definition np_diff :: "int list \<Rightarrow> int list" where
  "np_diff xs = map (\<lambda>(b, a). b - a) (zip (tl xs) xs)"

definition np_median :: "int list \<Rightarrow> float64" where
  "np_median xs =
     (let s = sort xs; n = length xs in
      if n = 0 then None
      else if odd n then Some (of_int (s ! (n div 2)))
      else Some ((of_int (s ! (n div 2 - 1)) + of_int (s ! (n div 2))) / 2))"

definition np_mean :: "int list \<Rightarrow> float64" where
  "np_mean xs = (if xs = [] then None else Some (of_int (sum_list xs) / of_nat (length xs)))"

definition float_less :: "float64 \<Rightarrow> float64 \<Rightarrow> bool" where
  "float_less a b = (case (a, b) of (Some x, Some y) \<Rightarrow> x < y | _ \<Rightarrow> False)"

text \<open>\<^verbatim>\<open>int(new_ts_median_diff)\<close>: Python refuses to convert NaN.\<close>

definition default_window_size :: "float64 \<Rightarrow> error + int" where
  "default_window_size m =
     (case m of
        None \<Rightarrow> Inl (ValueError ''cannot convert float NaN to integer'')
      | Some r \<Rightarrow> Inr (py_int r))"

text \<open>
  Whether the source timestamp \<open>t\<close> is selected for the window around \<open>ts\<close>. The
  code computes \<^verbatim>\<open>ts - window_size / 2\<close> and \<^verbatim>\<open>ts + window_size / 2\<close> with an int64
  \<^verbatim>\<open>ts\<close> and the Python float \<^verbatim>\<open>window_size / 2\<close>, which gives float64 bounds, and
  compares the int64 timestamp column with them as float64. Both ends are included.
\<close>

definition in_window :: "int \<Rightarrow> int \<Rightarrow> int \<Rightarrow> bool" where
  "in_window window_size ts t =
     (let half = fl (of_int window_size / 2);
          lower_bound = fl (to_double ts - half);
          upper_bound = fl (to_double ts + half)
      in lower_bound \<le> to_double t \<and> to_double t \<le> upper_bound)"

text \<open>
  \<^verbatim>\<open>Series.mean()\<close> skips missing cells and raises on a string. When nothing is left
  the mean is \<^verbatim>\<open>pd.NA\<close> for the nullable integer dtype and NaN otherwise.
\<close>

fun mean_cell :: "val \<Rightarrow> error + float64" where
  "mean_cell (VStr s) = Inl TypeError"
| "mean_cell (VInt i) = Inr (Some (of_int i))"
| "mean_cell (VFloat r) = Inr (Some r)"
| "mean_cell VNaN = Inr None"
| "mean_cell VNA = Inr None"

definition present :: "float64 list \<Rightarrow> rat list" where
  "present fs = concat (map (\<lambda>f. case f of None \<Rightarrow> [] | Some r \<Rightarrow> [r]) fs)"

definition series_mean :: "dtype \<Rightarrow> val list \<Rightarrow> error + val" where
  "series_mean d vs =
     (case traverse mean_cell vs of
        Inl e \<Rightarrow> Inl e
      | Inr fs \<Rightarrow>
          if present fs = [] then Inr (if d = NullableInt64 then VNA else VNaN)
          else Inr (VFloat (sum_list (present fs) / of_nat (length (present fs)))))"

definition window_cells :: "int list \<Rightarrow> val list \<Rightarrow> int \<Rightarrow> int \<Rightarrow> val list" where
  "window_cells x vs window_size ts =
     map snd (filter (\<lambda>(t, v). in_window window_size ts t) (zip x vs))"

definition window_value :: "int list \<Rightarrow> column \<Rightarrow> int \<Rightarrow> int \<Rightarrow> error + val" where
  "window_value x c window_size ts =
     (if filter (in_window window_size ts) x \<noteq> []
      then series_mean (col_dtype c) (window_cells x (col_vals c) window_size ts)
      else Inr VNaN)"

text \<open>
  \<^verbatim>\<open>new_data[col] = new_values\<close> assigns a Python list, and pandas infers the dtype of
  the new column from it: float64 for floats and NaN, object as soon as the list holds a
  \<^verbatim>\<open>pd.NA\<close>.
\<close>

definition inferred_dtype :: "val list \<Rightarrow> dtype" where
  "inferred_dtype vs = (if VNA \<in> set vs then Object else Float64)"

definition window_column ::
  "int list \<Rightarrow> int \<Rightarrow> int list \<Rightarrow> string \<times> column \<Rightarrow> error + (string \<times> column)" where
  "window_column x window_size new_ts nc =
     (case nc of (name, c) \<Rightarrow>
        (case traverse (window_value x c window_size) new_ts of
           Inl e \<Rightarrow> Inl e
         | Inr new_values \<Rightarrow>
             Inr (name, \<lparr>col_dtype = inferred_dtype new_values, col_vals = new_values\<rparr>)))"

definition downsampling_message :: string where
  "downsampling_message = ''new_ts must have a lower sampling frequency than the old data''"

definition window_average :: "int list \<Rightarrow> frame \<Rightarrow> int option \<Rightarrow> error + frame" where
  "window_average new_ts data window_size =
     (case check_data data ''timestamp [ns]'' of
        Inl e \<Rightarrow> Inl e
      | Inr _ \<Rightarrow>
        (case int_values (the (map_of (columns data) ''timestamp [ns]'')) of
           Inl e \<Rightarrow> Inl e
         | Inr x \<Rightarrow>
           let new_ts = sort new_ts;
               new_ts_median_diff = np_median (np_diff new_ts)
           in if float_less new_ts_median_diff (np_mean (np_diff x))
              then Inl (ValueError downsampling_message)
              else
                (case (case window_size of
                         None \<Rightarrow> default_window_size new_ts_median_diff
                       | Some w \<Rightarrow> Inr w) of
                   Inl e \<Rightarrow> Inl e
                 | Inr w \<Rightarrow>
                   (case time_columns new_ts of
                      Inl e \<Rightarrow> Inl e
                    | Inr tcols \<Rightarrow>
                      (case traverse (window_column x w new_ts) (value_columns data) of
                         Inl e \<Rightarrow> Inl e
                       | Inr vcols \<Rightarrow>
                           Inr \<lparr>index = range_index (length new_ts),
                                columns = tcols @ vcols\<rparr>)))))"

text \<open>
  The window size that \<^verbatim>\<open>window_average\<close> works with: the argument, or the truncated
  median spacing of the sorted new timestamps.
\<close>

definition window_size_used :: "int list \<Rightarrow> int option \<Rightarrow> int" where
  "window_size_used new_ts window_size =
     (case window_size of
        Some w \<Rightarrow> w
      | None \<Rightarrow> (case np_median (np_diff (sort new_ts)) of Some r \<Rightarrow> py_int r | None \<Rightarrow> 0))"

fun is_str :: "val \<Rightarrow> bool" where
  "is_str (VStr s) = True"
| "is_str v = False"

text \<open>Two results of \<^verbatim>\<open>window_average\<close> on \<open>mixed_tab\<close>.\<close>

definition sparse_out :: frame where
  "sparse_out = \<lparr>index = [0, 1, 2], columns =
     [(''timestamp [ns]'',
       \<lparr>col_dtype = NullableInt64, col_vals = [VInt 0, VInt 100, VInt 200]\<rparr>),
      (''time [s]'',
       \<lparr>col_dtype = Float64,
        col_vals = [VFloat 0, VFloat (1 / 10000000), VFloat (1 / 5000000)]\<rparr>),
      (''gaze x [px]'', \<lparr>col_dtype = Float64, col_vals = [VFloat (3 / 2), VNaN, VNaN]\<rparr>),
      (''worn'', \<lparr>col_dtype = Float64, col_vals = [VFloat (2 / 3), VNaN, VNaN]\<rparr>)]\<rparr>"

definition coarse_out :: frame where
  "coarse_out = \<lparr>index = [0, 1], columns =
     [(''timestamp [ns]'', \<lparr>col_dtype = NullableInt64, col_vals = [VInt 0, VInt 20]\<rparr>),
      (''time [s]'', \<lparr>col_dtype = Float64, col_vals = [VFloat 0, VFloat (1 / 50000000)]\<rparr>),
      (''gaze x [px]'', \<lparr>col_dtype = Float64, col_vals = [VFloat (3 / 2), VFloat 2]\<rparr>),
      (''worn'', \<lparr>col_dtype = Float64, col_vals = [VFloat (1 / 2), VFloat (1 / 2)]\<rparr>)]\<rparr>"

section \<open>\<^verbatim>\<open>concat_events\<close>\<close>

definition VALID_EVENTS :: "string list" where
  "VALID_EVENTS = [''blink'', ''blinks'', ''fixation'', ''fixations'',
                   ''saccade'', ''saccades'', ''event'', ''events'']"

text \<open>
  \<^verbatim>\<open>data[name] = text\<close> on a table: every row gets the string; an existing column of
  that name is overwritten where it stands, a new one is appended. The table is changed
  in place, so the function returns the changed table.
\<close>

definition set_column :: "frame \<Rightarrow> string \<Rightarrow> column \<Rightarrow> frame" where
  "set_column df name c =
     (if name \<in> set (map fst (columns df))
      then df\<lparr>columns := map (\<lambda>(n, old). (n, if n = name then c else old)) (columns df)\<rparr>
      else df\<lparr>columns := columns df @ [(name, c)]\<rparr>)"

definition set_text_column :: "frame \<Rightarrow> string \<Rightarrow> string \<Rightarrow> frame" where
  "set_text_column df name text =
     set_column df name \<lparr>col_dtype = Object, col_vals = replicate (nrows df) (VStr text)\<rparr>"

text \<open>\<^verbatim>\<open>data.rename(columns=mapping, inplace=True)\<close>.\<close>

definition rename_columns :: "(string \<times> string) list \<Rightarrow> frame \<Rightarrow> frame" where
  "rename_columns mapping df =
     df\<lparr>columns := map (\<lambda>(n, c). (case map_of mapping n of None \<Rightarrow> n | Some n' \<Rightarrow> n', c))
                       (columns df)\<rparr>"

text \<open>
  \<^verbatim>\<open>pd.concat([df1, df2], ignore_index=True)\<close>: the rows of \<open>df1\<close>, then those of
  \<open>df2\<close>, under the union of the columns (those of \<open>df1\<close> first), with a fresh
  index; a cell of a column that a table does not have is missing. The dtype of a
  concatenated column is the common dtype of the columns that are joined, also when one
  of them has no rows: numpy integers joined with nullable integers give the nullable
  dtype, integers joined with floats give floats. Where a table with rows lacks the
  column, the result must hold missing cells, so numpy integers become floats.
\<close>

definition join_dtype :: "dtype \<Rightarrow> dtype \<Rightarrow> dtype" where
  "join_dtype d1 d2 =
     (if d1 = d2 then d1
      else if d1 = Object \<or> d2 = Object then Object
      else if d1 = Float64 \<or> d2 = Float64 then Float64
      else NullableInt64)"

definition part_vals :: "dtype \<Rightarrow> column option \<Rightarrow> nat \<Rightarrow> val list" where
  "part_vals d part n =
     (case part of
        None \<Rightarrow> replicate n (if d = NullableInt64 then VNA else VNaN)
      | Some c \<Rightarrow> col_vals c)"

fun cast_val :: "dtype \<Rightarrow> val \<Rightarrow> val" where
  "cast_val Float64 (VInt i) = VFloat (of_int i)"
| "cast_val Float64 VNA = VNaN"
| "cast_val d v = v"

definition concat_column :: "column option \<Rightarrow> nat \<Rightarrow> column option \<Rightarrow> nat \<Rightarrow> column" where
  "concat_column a na b nb =
     (let joined = (case (a, b) of
                      (Some ca, Some cb) \<Rightarrow> join_dtype (col_dtype ca) (col_dtype cb)
                    | (Some ca, None) \<Rightarrow> col_dtype ca
                    | (None, Some cb) \<Rightarrow> col_dtype cb
                    | (None, None) \<Rightarrow> Object);
          lacking = ((a = None \<and> 0 < na) \<or> (b = None \<and> 0 < nb));
          d = (if lacking \<and> joined = Int64 then Float64 else joined)
      in \<lparr>col_dtype = d, col_vals = map (cast_val d) (part_vals d a na @ part_vals d b nb)\<rparr>)"

definition pd_concat :: "frame \<Rightarrow> frame \<Rightarrow> frame" where
  "pd_concat df1 df2 =
     (let tnames = map fst (columns df1);
          names = tnames @ filter (\<lambda>n. n \<notin> set tnames) (map fst (columns df2))
      in \<lparr>index = range_index (nrows df1 + nrows df2),
          columns = map (\<lambda>n. (n, concat_column (map_of (columns df1) n) (nrows df1)
                                    (map_of (columns df2) n) (nrows df2)))
                      names\<rparr>)"

text \<open>The empty table with the four typed columns that the concatenation starts from.\<close>

definition empty_events :: frame where
  "empty_events =
     \<lparr>index = [],
      columns =
        [(''type'', \<lparr>col_dtype = Object, col_vals = []\<rparr>),
         (''start timestamp [ns]'', \<lparr>col_dtype = NullableInt64, col_vals = []\<rparr>),
         (''end timestamp [ns]'', \<lparr>col_dtype = NullableInt64, col_vals = []\<rparr>),
         (''duration [ms]'', \<lparr>col_dtype = Float64, col_vals = []\<rparr>)]\<rparr>"

definition resolve_event_names :: "names_arg \<Rightarrow> error + string list" where
  "resolve_event_names event_names =
     (case event_names of
        NameStr w \<Rightarrow>
          if w = ''all'' then Inr VALID_EVENTS
          else Inl (ValueError ''Invalid event_names, must be 'all' or a list of event names.'')
      | NameList l \<Rightarrow> Inr l)"

text \<open>
  The event tables are reached through the recording: \<^verbatim>\<open>data = rec.blinks.data\<close> binds
  the table object itself, not a copy, so \<^verbatim>\<open>data["type"] = "blink"\<close> and the in-place
  renaming write into the recording. Each step below therefore returns the recording as
  it is afterwards, next to the table gathered so far.
\<close>

definition add_blinks :: "bool \<Rightarrow> frame \<times> recording \<Rightarrow> error + (frame \<times> recording)" where
  "add_blinks wanted st =
     (case st of (concat_data, rec) \<Rightarrow>
        if wanted then
          (case blinks rec of
             None \<Rightarrow> Inl (ValueError ''Cannnot load blink data.'')
           | Some d \<Rightarrow>
               let data = set_text_column d ''type'' ''blink''
               in Inr (pd_concat concat_data data, rec\<lparr>blinks := Some data\<rparr>))
        else Inr st)"

definition add_fixations :: "bool \<Rightarrow> frame \<times> recording \<Rightarrow> error + (frame \<times> recording)" where
  "add_fixations wanted st =
     (case st of (concat_data, rec) \<Rightarrow>
        if wanted then
          (case fixations rec of
             None \<Rightarrow> Inl (ValueError ''Cannnot load fixation data.'')
           | Some d \<Rightarrow>
               let data = set_text_column d ''type'' ''fixation''
               in Inr (pd_concat concat_data data, rec\<lparr>fixations := Some data\<rparr>))
        else Inr st)"

definition add_saccades :: "bool \<Rightarrow> frame \<times> recording \<Rightarrow> error + (frame \<times> recording)" where
  "add_saccades wanted st =
     (case st of (concat_data, rec) \<Rightarrow>
        if wanted then
          (case saccades rec of
             None \<Rightarrow> Inl (ValueError ''Cannnot load saccade data.'')
           | Some d \<Rightarrow>
               let data = set_text_column d ''type'' ''saccade''
               in Inr (pd_concat concat_data data, rec\<lparr>saccades := Some data\<rparr>))
        else Inr st)"

definition add_events :: "bool \<Rightarrow> frame \<times> recording \<Rightarrow> error + (frame \<times> recording)" where
  "add_events wanted st =
     (case st of (concat_data, rec) \<Rightarrow>
        if wanted then
          (case events rec of
             None \<Rightarrow> Inl (ValueError ''Cannnot load event data.'')
           | Some d \<Rightarrow>
               let data = rename_columns
                            [(''name'', ''message name''), (''type'', ''message type'')] d;
                   data = set_text_column data ''type'' ''event'';
                   data = rename_columns [(''timestamp [ns]'', ''start timestamp [ns]'')] data
               in Inr (pd_concat concat_data data, rec\<lparr>events := Some data\<rparr>))
        else Inr st)"

text \<open>Lines 395 to 451: the table before it is sorted, and the recording afterwards.\<close>

definition concat_events_gather ::
  "recording \<Rightarrow> names_arg \<Rightarrow> error + (frame \<times> recording)" where
  "concat_events_gather rec event_names =
     (case resolve_event_names event_names of
        Inl e \<Rightarrow> Inl e
      | Inr names \<Rightarrow>
        if length names \<le> 1
        then Inl (ValueError ''Must provide at least two events to concatenate.'')
        else
          let names = map lower names in
          if \<not> list_all (\<lambda>ev. ev \<in> set VALID_EVENTS) names
          then Inl (ValueError ''Invalid event name'')
          else
            (case add_blinks (''blinks'' \<in> set names \<or> ''blink'' \<in> set names)
                    (empty_events, rec) of
               Inl e \<Rightarrow> Inl e
             | Inr s1 \<Rightarrow>
               (case add_fixations (''fixations'' \<in> set names \<or> ''fixation'' \<in> set names)
                       s1 of
                  Inl e \<Rightarrow> Inl e
                | Inr s2 \<Rightarrow>
                  (case add_saccades (''saccades'' \<in> set names \<or> ''saccade'' \<in> set names)
                          s2 of
                     Inl e \<Rightarrow> Inl e
                   | Inr s3 \<Rightarrow>
                       add_events (''events'' \<in> set names \<or> ''event'' \<in> set names) s3))))"

text \<open>
  \<^verbatim>\<open>concat_data.sort_values("start timestamp [ns]", inplace=True)\<close> sorts with the
  default \<^verbatim>\<open>kind="quicksort"\<close> and \<^verbatim>\<open>na_position="last"\<close>. pandas computes an
  indexer with numpy's \<^verbatim>\<open>argsort\<close> and takes the rows in that order. The library
  documents that only \<^verbatim>\<open>mergesort\<close> and \<^verbatim>\<open>stable\<close> keep the order of equal keys, so
  the model does not fix which sorting permutation the quicksort returns: an indexer is
  admissible when it is a permutation of the row positions that puts the rows with a key
  first, in ascending order of the key, and the rows without a key last, in their original
  order.
\<close>

fun key_of_cell :: "val \<Rightarrow> error + float64" where
  "key_of_cell (VStr s) = Inl NotModelled"
| "key_of_cell (VInt i) = Inr (Some (of_int i))"
| "key_of_cell (VFloat r) = Inr (Some r)"
| "key_of_cell VNaN = Inr None"
| "key_of_cell VNA = Inr None"

definition start_keys :: "frame \<Rightarrow> error + float64 list" where
  "start_keys df =
     (case map_of (columns df) ''start timestamp [ns]'' of
        None \<Rightarrow> Inl NotModelled
      | Some c \<Rightarrow> traverse key_of_cell (col_vals c))"

fun key_le :: "float64 \<Rightarrow> float64 \<Rightarrow> bool" where
  "key_le (Some x) (Some y) = (x \<le> y)"
| "key_le a None = True"
| "key_le None (Some y) = False"

definition admissible_indexer :: "float64 list \<Rightarrow> nat list \<Rightarrow> bool" where
  "admissible_indexer keys indexer =
     (sort indexer = [0..<length keys] \<and>
      sorted_wrt key_le (map (\<lambda>i. keys ! i) indexer) \<and>
      sorted (filter (\<lambda>i. keys ! i = None) indexer))"

definition take_rows :: "nat list \<Rightarrow> frame \<Rightarrow> frame" where
  "take_rows indexer df =
     \<lparr>index = map (\<lambda>i. index df ! i) indexer,
      columns = map (\<lambda>(n, c). (n, c\<lparr>col_vals := map (\<lambda>i. col_vals c ! i) indexer\<rparr>))
                  (columns df)\<rparr>"

text \<open>\<^verbatim>\<open>reset_index(drop=True, inplace=True)\<close>.\<close>

definition reset_index :: "frame \<Rightarrow> frame" where
  "reset_index df = df\<lparr>index := range_index (nrows df)\<rparr>"

text \<open>
  \<^verbatim>\<open>concat_events\<close>, with the indexer that the library's sort returns as a parameter.
  An indexer that no sort can return for the keys at hand is outside the model.
\<close>

definition concat_events ::
  "nat list \<Rightarrow> recording \<Rightarrow> names_arg \<Rightarrow> error + (frame \<times> recording)" where
  "concat_events indexer rec event_names =
     (case concat_events_gather rec event_names of
        Inl e \<Rightarrow> Inl e
      | Inr (concat_data, rec') \<Rightarrow>
          (case start_keys concat_data of
             Inl e \<Rightarrow> Inl e
           | Inr keys \<Rightarrow>
               if admissible_indexer keys indexer
               then Inr (reset_index (take_rows indexer concat_data), rec')
               else Inl NotModelled))"

definition result_recording :: "error + (frame \<times> recording) \<Rightarrow> recording option" where
  "result_recording r = (case r of Inl e \<Rightarrow> None | Inr (df, rec) \<Rightarrow> Some rec)"

section \<open>Example events\<close>

definition blinks_tab :: frame where
  "blinks_tab = \<lparr>index = [0, 1], columns =
     [(''blink id'', \<lparr>col_dtype = Int64, col_vals = [VInt 1, VInt 2]\<rparr>),
      (''start timestamp [ns]'', \<lparr>col_dtype = Int64, col_vals = [VInt 50, VInt 300]\<rparr>),
      (''end timestamp [ns]'', \<lparr>col_dtype = Int64, col_vals = [VInt 60, VInt 320]\<rparr>),
      (''duration [ms]'', \<lparr>col_dtype = Float64, col_vals = [VFloat 10, VFloat 20]\<rparr>)]\<rparr>"

definition fixations_tab :: frame where
  "fixations_tab = \<lparr>index = [0, 1], columns =
     [(''fixation id'', \<lparr>col_dtype = Int64, col_vals = [VInt 1, VInt 2]\<rparr>),
      (''start timestamp [ns]'', \<lparr>col_dtype = Int64, col_vals = [VInt 50, VInt 100]\<rparr>),
      (''end timestamp [ns]'', \<lparr>col_dtype = Int64, col_vals = [VInt 90, VInt 250]\<rparr>),
      (''duration [ms]'', \<lparr>col_dtype = Float64, col_vals = [VFloat 40, VFloat 150]\<rparr>)]\<rparr>"

definition rec3 :: recording where
  "rec3 =
     \<lparr>gaze = None, eye_states = None, imu = None,
      blinks = Some blinks_tab, fixations = Some fixations_tab,
      saccades = None, events = None\<rparr>"

definition blinks_typed :: frame where
  "blinks_typed = \<lparr>index = [0, 1], columns =
     [(''blink id'', \<lparr>col_dtype = Int64, col_vals = [VInt 1, VInt 2]\<rparr>),
      (''start timestamp [ns]'', \<lparr>col_dtype = Int64, col_vals = [VInt 50, VInt 300]\<rparr>),
      (''end timestamp [ns]'', \<lparr>col_dtype = Int64, col_vals = [VInt 60, VInt 320]\<rparr>),
      (''duration [ms]'', \<lparr>col_dtype = Float64, col_vals = [VFloat 10, VFloat 20]\<rparr>),
      (''type'', \<lparr>col_dtype = Object, col_vals = [VStr ''blink'', VStr ''blink'']\<rparr>)]\<rparr>"

definition fixations_typed :: frame where
  "fixations_typed = \<lparr>index = [0, 1], columns =
     [(''fixation id'', \<lparr>col_dtype = Int64, col_vals = [VInt 1, VInt 2]\<rparr>),
      (''start timestamp [ns]'', \<lparr>col_dtype = Int64, col_vals = [VInt 50, VInt 100]\<rparr>),
      (''end timestamp [ns]'', \<lparr>col_dtype = Int64, col_vals = [VInt 90, VInt 250]\<rparr>),
      (''duration [ms]'', \<lparr>col_dtype = Float64, col_vals = [VFloat 40, VFloat 150]\<rparr>),
      (''type'', \<lparr>col_dtype = Object, col_vals = [VStr ''fixation'', VStr ''fixation'']\<rparr>)]\<rparr>"

definition rec3_after :: recording where
  "rec3_after =
     \<lparr>gaze = None, eye_states = None, imu = None,
      blinks = Some blinks_typed, fixations = Some fixations_typed,
      saccades = None, events = None\<rparr>"

section \<open>\<^verbatim>\<open>crop\<close>\<close>

text \<open>
  \<^verbatim>\<open>data[(data[t] >= tmin) & (data[t] <= tmax)]\<close>: the rows inside the range, with
  their index labels. A bound that is not given is the smallest or largest value of the
  time column (missing cells skipped); a comparison with a missing value is false.
\<close>

definition series_min :: "float64 list \<Rightarrow> float64" where
  "series_min fs = (case present fs of [] \<Rightarrow> None | r # rs \<Rightarrow> Some (fold min rs r))"

definition series_max :: "float64 list \<Rightarrow> float64" where
  "series_max fs = (case present fs of [] \<Rightarrow> None | r # rs \<Rightarrow> Some (fold max rs r))"

definition float_le :: "float64 \<Rightarrow> float64 \<Rightarrow> bool" where
  "float_le a b = (case (a, b) of (Some x, Some y) \<Rightarrow> x \<le> y | _ \<Rightarrow> False)"

definition select_rows :: "bool list \<Rightarrow> frame \<Rightarrow> frame" where
  "select_rows keep df =
     \<lparr>index = map snd (filter fst (zip keep (index df))),
      columns = map (\<lambda>(n, c). (n, c\<lparr>col_vals := map snd (filter fst (zip keep (col_vals c)))\<rparr>))
                  (columns df)\<rparr>"

definition crop :: "frame \<Rightarrow> rat option \<Rightarrow> rat option \<Rightarrow> string \<Rightarrow> error + frame" where
  "crop data tmin tmax by_col =
     (if tmin = None \<and> tmax = None
      then Inl (ValueError ''At least one of tmin or tmax must be provided'')
      else
        let t_col_name = (if by_col = ''timestamp'' then ''timestamp [ns]'' else ''time [s]'') in
        (case check_data data t_col_name of
           Inl e \<Rightarrow> Inl e
         | Inr _ \<Rightarrow>
           (case traverse to_float (col_vals (the (map_of (columns data) t_col_name))) of
              Inl e \<Rightarrow> Inl TypeError
            | Inr ts \<Rightarrow>
                let lo = (case tmin of None \<Rightarrow> series_min ts | Some r \<Rightarrow> Some r);
                    hi = (case tmax of None \<Rightarrow> series_max ts | Some r \<Rightarrow> Some r)
                in Inr (select_rows (map (\<lambda>t. float_le lo t \<and> float_le t hi) ts) data))))"

section \<open>Further notions and example tables\<close>


text \<open>A missing cell, of either kind.\<close>

fun is_missing :: "val \<Rightarrow> bool" where
  "is_missing VNaN = True"
| "is_missing VNA = True"
| "is_missing v = False"

text \<open>
  What the interpolation at the source's own timestamps needs of float64. The float64
  images of consecutive timestamps differ, and the midpoint that the nearest kind
  computes for them lies at or after the earlier one and strictly before the later one.
\<close>

definition knots_apart :: "int list \<Rightarrow> bool" where
  "knots_apart x =
     (let d = map to_double x in
      list_all (\<lambda>(a, b). a < b \<and> a \<le> fl (b / 2 + a / 2) \<and> fl (b / 2 + a / 2) < b)
        (zip d (tl d)))"

text \<open>An integer cell that float64 holds exactly; every integer below \<open>2^53\<close> is one.\<close>

fun exact_cell :: "val \<Rightarrow> bool" where
  "exact_cell (VInt i) = (to_double i = of_int i)"
| "exact_cell v = True"

text \<open>
  Two tables with timestamps at the scale of the Unix epoch in nanoseconds, where
  neighbouring float64 numbers lie 256 apart: one sampled every 5 ms, one every 100 ns.
\<close>

definition epoch_tab :: frame where
  "epoch_tab = \<lparr>index = [0, 1, 2], columns =
     [(''timestamp [ns]'',
       \<lparr>col_dtype = Int64,
        col_vals = [VInt 1700000000000000000, VInt 1700000000005000000,
                    VInt 1700000000010000000]\<rparr>),
      (''gaze x [px]'', \<lparr>col_dtype = Float64, col_vals = [VFloat 1, VFloat 2, VFloat 4]\<rparr>),
      (''worn'', \<lparr>col_dtype = Int64, col_vals = [VInt 1, VInt 2, VInt 3]\<rparr>)]\<rparr>"

definition close_tab :: frame where
  "close_tab = \<lparr>index = [0, 1, 2], columns =
     [(''timestamp [ns]'',
       \<lparr>col_dtype = Int64,
        col_vals = [VInt 1700000000000000000, VInt 1700000000000000100,
                    VInt 1700000000000000200]\<rparr>),
      (''gaze x [px]'', \<lparr>col_dtype = Float64, col_vals = [VFloat 1, VFloat 2, VFloat 4]\<rparr>),
      (''worn'', \<lparr>col_dtype = Int64, col_vals = [VInt 1, VInt 2, VInt 3]\<rparr>)]\<rparr>"

definition close_out :: frame where
  "close_out = \<lparr>index = [0, 1, 2], columns =
     [(''timestamp [ns]'',
       \<lparr>col_dtype = NullableInt64,
        col_vals = [VInt 1700000000000000000, VInt 1700000000000000100,
                    VInt 1700000000000000200]\<rparr>),
      (''time [s]'',
       \<lparr>col_dtype = Float64,
        col_vals = [VFloat 0, VFloat (1 / 10000000), VFloat (1 / 5000000)]\<rparr>),
      (''gaze x [px]'', \<lparr>col_dtype = Float64, col_vals = [VFloat 2, VFloat 2, VFloat 4]\<rparr>),
      (''worn'', \<lparr>col_dtype = Int64, col_vals = [VInt 1, VInt 1, VInt 3]\<rparr>)]\<rparr>"

text \<open>The numbers among some cells, in their order; missing cells are left out.\<close>

definition numbers :: "val list \<Rightarrow> rat list" where
  "numbers vs =
     concat (map (\<lambda>v. case v of VInt i \<Rightarrow> [of_int i] | VFloat r \<Rightarrow> [r] | _ \<Rightarrow> []) vs)"

text \<open>
  A table with a nullable integer column that holds no number, and what
  \<^verbatim>\<open>window_average\<close> returns for it at the new timestamps 0 and 100 with a window of
  100 ns.
\<close>

definition na_tab :: frame where
  "na_tab = \<lparr>index = [0, 1], columns =
     [(''timestamp [ns]'', \<lparr>col_dtype = Int64, col_vals = [VInt 0, VInt 10]\<rparr>),
      (''worn'', \<lparr>col_dtype = NullableInt64, col_vals = [VNA, VNA]\<rparr>)]\<rparr>"

definition na_out :: frame where
  "na_out = \<lparr>index = [0, 1], columns =
     [(''timestamp [ns]'', \<lparr>col_dtype = NullableInt64, col_vals = [VInt 0, VInt 100]\<rparr>),
      (''time [s]'', \<lparr>col_dtype = Float64, col_vals = [VFloat 0, VFloat (1 / 10000000)]\<rparr>),
      (''worn'', \<lparr>col_dtype = Object, col_vals = [VNA, VNaN]\<rparr>)]\<rparr>"

text \<open>
  The window as the specification words it, \<open>[ts - window/2, ts + window/2]\<close> on the
  exact numbers.
\<close>

definition spec_in_window :: "int \<Rightarrow> int \<Rightarrow> int \<Rightarrow> bool" where
  "spec_in_window window_size ts t =
     (rat_of_int ts - rat_of_int window_size / 2 \<le> rat_of_int t \<and>
      rat_of_int t \<le> rat_of_int ts + rat_of_int window_size / 2)"

text \<open>
  A table with two rows 140 ns apart at the scale of the Unix epoch in nanoseconds, and
  what \<^verbatim>\<open>window_average\<close> returns for it at one new timestamp 200 ns after the first
  row with a window of 100 ns.
\<close>

definition far_tab :: frame where
  "far_tab = \<lparr>index = [0, 1], columns =
     [(''timestamp [ns]'',
       \<lparr>col_dtype = Int64,
        col_vals = [VInt 1700000000000000000, VInt 1700000000000000140]\<rparr>),
      (''gaze x [px]'', \<lparr>col_dtype = Float64, col_vals = [VFloat 1, VFloat 2]\<rparr>)]\<rparr>"

definition far_out :: frame where
  "far_out = \<lparr>index = [0], columns =
     [(''timestamp [ns]'',
       \<lparr>col_dtype = NullableInt64, col_vals = [VInt 1700000000000000200]\<rparr>),
      (''time [s]'', \<lparr>col_dtype = Float64, col_vals = [VFloat 0]\<rparr>),
      (''gaze x [px]'', \<lparr>col_dtype = Float64, col_vals = [VFloat 2]\<rparr>)]\<rparr>"

section \<open>Properties\<close>

subsection \<open>The common timeline of \<^verbatim>\<open>concat_streams\<close>\<close>

lemma py_int_pos: "0 < sf \<Longrightarrow> py_int (1000000000 / of_int sf) = 1000000000 div sf"
proof -
  assume "0 < sf"
  have "(1000000000::rat) / of_int sf = of_int 1000000000 / of_int sf" by simp
  then have "\<lfloor>(1000000000::rat) / of_int sf\<rfloor> = 1000000000 div sf"
    using floor_divide_of_int_eq[of 1000000000 sf, where ?'a = rat] by simp
  moreover have "0 \<le> (1000000000::rat) / of_int sf" using \<open>0 < sf\<close> by simp
  ultimately show ?thesis by (simp add: py_int_def)
qed

lemma map_of_rename:
  assumes "\<And>n. f n = k \<Longrightarrow> n = k" and "f k = k"
  shows "map_of (map (\<lambda>(n, c). (f n, c)) cols) k = map_of cols k"
  using assms by (induction cols) (auto)

lemma merge_frames_timestamp:
  assumes "map_of (columns left) ''timestamp [ns]'' = Some c"
  shows "map_of (columns (merge_frames left right)) ''timestamp [ns]'' = Some c"
proof -
  let ?f = "\<lambda>n. if \<not> is_time_col n \<and> n \<in> set (map fst (value_columns right)) then n @ ''_x'' else n"
  have "map_of (map (\<lambda>(n, c). (?f n, c)) (columns left)) ''timestamp [ns]'' = map_of (columns left) ''timestamp [ns]''"
    by (rule map_of_rename) (auto simp: is_time_col_def split: if_splits)
  then show ?thesis using assms
    by (simp add: merge_frames_def Let_def map_add_def)
qed

lemma nrows_merge_frames: "nrows (merge_frames left right) = nrows left"
  by (simp add: merge_frames_def nrows_def range_index_def Let_def)

lemma resample_and_merge_keeps_timeline:
  assumes "resample_and_merge new_ts fk ok inplace info (df, rec) = Inr (out, rec')"
      and "map_of (columns df) ''timestamp [ns]'' = Some c"
  shows "map_of (columns out) ''timestamp [ns]'' = Some c \<and> nrows out = nrows df"
  using assms
proof (induction info arbitrary: df rec)
  case Nil
  then show ?case by simp
next
  case (Cons i rest)
  from Cons.prems(1) obtain s resamp s' where
    rest: "resample_and_merge new_ts fk ok inplace rest
             (merge_frames df resamp, set_stream rec (info_stream i) s') = Inr (out, rec')"
    by (auto split: option.splits sum.splits if_splits prod.splits)
  have "map_of (columns (merge_frames df resamp)) ''timestamp [ns]'' = Some c"
    using Cons.prems(2) by (rule merge_frames_timestamp)
  from Cons.IH[OF rest this] show ?case by (simp add: nrows_merge_frames)
qed

lemma time_columns_timestamp:
  "time_columns new_ts = Inr tcols \<Longrightarrow>
   map_of tcols ''timestamp [ns]'' = Some \<lparr>col_dtype = NullableInt64, col_vals = map VInt new_ts\<rparr>"
  by (auto simp: time_columns_def split: list.splits)

lemma arange_bounds:
  fixes start stop step :: int
  assumes "0 < step" and "i < nat \<lceil>(of_int (stop - start) :: rat) / of_int step\<rceil>"
  shows "start \<le> start + int i * step \<and> start + int i * step < stop"
proof -
  have "int i < \<lceil>(of_int (stop - start) :: rat) / of_int step\<rceil>" using assms(2) by linarith
  then have "(of_int (int i) :: rat) < of_int (stop - start) / of_int step"
    by (simp add: less_ceiling_iff)
  then have "(of_int (int i) :: rat) * of_int step < of_int (stop - start)"
    using assms(1) by (simp add: pos_less_divide_eq)
  then have "(of_int (int i * step) :: rat) < of_int (stop - start)" by simp
  then have "int i * step < stop - start" by (simp only: of_int_less_iff)
  moreover have "0 \<le> int i * step" using assms(1) by simp
  ultimately show ?thesis by linarith
qed


text \<open>
  C1, as the code has it. Whenever \<^verbatim>\<open>concat_streams\<close> returns a table, its timestamp
  column is the evenly spaced sequence \<open>start + i * step\<close> for \<open>i < n\<close>, where
  \<open>start\<close> is the latest first timestamp of the selected streams, \<open>stop\<close> their
  earliest last timestamp, \<open>step = int(1e9 / sf)\<close> is the quotient truncated (not
  rounded) and \<open>n = ceil((stop - start) / step)\<close> is the number of rows. For a
  positive frequency the step is \<open>10^9 div sf\<close> and every timestamp lies in
  \<open>[start, stop)\<close>.
\<close>

theorem concat_streams_timeline:
  assumes names: "resolve_stream_names stream_names = Inr names"
      and info: "collect_stream_info rec (map lower names) = Inr info"
      and sf: "resolve_sf sampling_freq info = Inr sf"
      and ret: "concat_streams rec stream_names sampling_freq fk ok inplace = Inr (out, rec')"
  shows "sf \<noteq> 0 \<and>
     (let start = list_max (map info_first_ts info);
          stop = list_min (map info_last_ts info);
          step = py_int (1000000000 / of_int sf);
          n = nat \<lceil>(of_int (stop - start) :: rat) / of_int step\<rceil>
      in step \<noteq> 0 \<and> nrows out = n \<and>
         map_option col_vals (map_of (columns out) ''timestamp [ns]'')
           = Some (map (\<lambda>i. VInt (start + int i * step)) [0..<n]) \<and>
         (0 < sf \<longrightarrow> step = 1000000000 div sf \<and>
            (\<forall>i<n. start \<le> start + int i * step \<and> start + int i * step < stop)))"
proof -
  let ?start = "list_max (map info_first_ts info)"
  let ?stop = "list_min (map info_last_ts info)"
  let ?step = "py_int (1000000000 / of_int sf)"
  let ?n = "nat \<lceil>(of_int (?stop - ?start) :: rat) / of_int ?step\<rceil>"
  let ?ts = "map (\<lambda>i. ?start + int i * ?step) [0..<?n]"
  from ret names info sf obtain new_ts tcols where
    tl: "common_timeline info sf = Inr new_ts" and
    tc: "time_columns new_ts = Inr tcols" and
    rm: "resample_and_merge new_ts fk ok inplace info
           (\<lparr>index = range_index (length new_ts), columns = tcols\<rparr>, rec) = Inr (out, rec')"
    by (auto simp: concat_streams_def Let_def split: sum.splits if_splits)
  from tl have sf0: "sf \<noteq> 0" and step0: "?step \<noteq> 0" and nts: "new_ts = ?ts"
    by (auto simp: common_timeline_def timeline_step_def np_arange_def Let_def split: if_splits)
  from resample_and_merge_keeps_timeline[OF rm] time_columns_timestamp[OF tc]
  have col: "map_of (columns out) ''timestamp [ns]''
               = Some \<lparr>col_dtype = NullableInt64, col_vals = map VInt new_ts\<rparr>"
    and nr: "nrows out = length new_ts"
    by (simp_all add: nrows_def range_index_def)
  have pos: "0 < sf \<longrightarrow> ?step = 1000000000 div sf \<and>
            (\<forall>i<?n. ?start \<le> ?start + int i * ?step \<and> ?start + int i * ?step < ?stop)"
  proof
    assume p: "0 < sf"
    then have e: "?step = 1000000000 div sf" by (rule py_int_pos)
    then have "0 \<le> ?step" using p by (simp add: pos_imp_zdiv_nonneg_iff)
    with step0 have "0 < ?step" by linarith
    then show "?step = 1000000000 div sf \<and>
            (\<forall>i<?n. ?start \<le> ?start + int i * ?step \<and> ?start + int i * ?step < ?stop)"
      using e arange_bounds[of ?step _ ?stop ?start] by blast
  qed
  have c3: "map_option col_vals (map_of (columns out) ''timestamp [ns]'')
           = Some (map (\<lambda>i. VInt (?start + int i * ?step)) [0..<?n])"
    using col nts by (simp add: comp_def)
  have c2: "nrows out = ?n" using nr nts by simp
  show ?thesis
    unfolding Let_def using sf0 step0 c2 c3 pos by blast
qed


theorem concat_streams_timeline_witness:
  "resolve_stream_names (NameList [''Gaze'', ''imu'']) = Inr [''Gaze'', ''imu''] \<and>
   collect_stream_info rec1 (map lower [''Gaze'', ''imu'']) = Inr info1 \<and>
   resolve_sf (FreqNum 60) info1 = Inr 60 \<and>
   concat_streams rec1 (NameList [''Gaze'', ''imu'']) (FreqNum 60) Linear Nearest False
     = Inr (out1, rec1) \<and>
   nrows out1 = 2 \<and>
   map_option col_vals (map_of (columns out1) ''timestamp [ns]'')
     = Some [VInt 0, VInt 16666666]"
proof -
  have h1: "resolve_stream_names (NameList [''Gaze'', ''imu'']) = Inr [''Gaze'', ''imu'']"
    by code_simp
  have h2: "collect_stream_info rec1 (map lower [''Gaze'', ''imu'']) = Inr info1"
    by code_simp
  have h3: "resolve_sf (FreqNum 60) info1 = Inr 60"
    by code_simp
  have h4: "concat_streams rec1 (NameList [''Gaze'', ''imu'']) (FreqNum 60) Linear Nearest
              False = Inr (out1, rec1)"
    by code_simp
  have "nrows out1 = 2" by code_simp
  moreover have "map_option col_vals (map_of (columns out1) ''timestamp [ns]'')
     = Some [VInt 0, VInt 16666666]" by code_simp
  ultimately show ?thesis
    using h1 h2 h3 h4 concat_streams_timeline[OF h1 h2 h3 h4] by simp
qed

text \<open>
  C1, as the specification words it, fails at the frequency 60 Hz: \<open>1e9 / 60\<close> is
  \<open>16666666.67\<close>, which the code truncates to a step of 16666666 ns where rounding gives
  16666667 ns. On two streams that both span \<open>[0, 16666667]\<close> the code returns two
  rows, at 0 and 16666666, and the specification's formula gives one.
\<close>

theorem concat_streams_step_counterexample:
  "collect_stream_info rec1 (map lower [''gaze'', ''imu'']) = Inr info1 \<and>
   result_timestamps
     (concat_streams rec1 (NameList [''gaze'', ''imu'']) (FreqNum 60) Linear Nearest False)
     = Some [VInt 0, VInt 16666666] \<and>
   spec_step 60 = 16666667 \<and>
   spec_row_count info1 60 = 1"
  by code_simp

subsection \<open>Streams without a common time span\<close>

lemma np_arange_empty:
  assumes "stop \<le> start" and "0 < step"
  shows "np_arange start stop step = Inr []"
proof -
  have "(of_int (stop - start) :: rat) / of_int step \<le> 0"
    using assms by (simp add: divide_nonpos_pos)
  then have "\<lceil>(of_int (stop - start) :: rat) / of_int step\<rceil> \<le> 0"
    by (simp add: ceiling_le_iff)
  then show ?thesis using assms by (simp add: np_arange_def)
qed

lemma concat_streams_no_overlap:
  assumes "resolve_stream_names stream_names = Inr names"
      and "1 < length names"
      and "list_all (\<lambda>ch. ch \<in> set VALID_STREAMS) (map lower names)"
      and "collect_stream_info rec (map lower names) = Inr info"
      and "resolve_sf sampling_freq info = Inr sf"
      and "0 < sf" and "sf \<le> 1000000000"
      and "list_min (map info_last_ts info) \<le> list_max (map info_first_ts info)"
  shows "concat_streams rec stream_names sampling_freq fk ok inplace = Inl IndexError"
proof -
  have "0 < 1000000000 div sf" using assms(6,7) by (simp add: pos_imp_zdiv_pos_iff)
  then have "0 < py_int (1000000000 / of_int sf)"
    using py_int_pos[OF assms(6)] by linarith
  then have "common_timeline info sf = Inr []"
    using assms(6,8) by (simp add: common_timeline_def timeline_step_def np_arange_empty)
  then show ?thesis using assms(1-5)
    by (simp add: concat_streams_def Let_def time_columns_def)
qed

text \<open>
  C2 says that streams without a common time span give an empty table and no error. The
  code raises. The gaze stream of \<open>rec2\<close> ends at 1 s and its IMU stream starts at
  2 s, so the latest first timestamp is not before the earliest last timestamp. The
  timeline is empty, and reading \<^verbatim>\<open>new_ts[0]\<close> for the relative-time column raises
  an \<^verbatim>\<open>IndexError\<close>: no table is returned.
\<close>

theorem concat_streams_no_overlap_raises:
  "concat_streams rec2 (NameList [''gaze'', ''imu'']) (FreqStr ''min'') Linear Nearest False
     = Inl IndexError"
  by code_simp

subsection \<open>Column dtypes of \<^verbatim>\<open>interpolate\<close>\<close>

lemma traverse_list_all2:
  "traverse f xs = Inr ys \<Longrightarrow> list_all2 (\<lambda>x y. f x = Inr y) xs ys"
  by (induction xs arbitrary: ys) (auto split: sum.splits)

lemma traverse_length: "traverse f xs = Inr ys \<Longrightarrow> length ys = length xs"
  by (drule traverse_list_all2) (simp add: list_all2_lengthD)

lemma astype_result:
  assumes "astype d ys = Inr c"
  shows "col_dtype c = d \<and> wt_column c \<and> length (col_vals c) = length ys"
proof (cases d)
  case Float64
  have "wt_val Float64 (of_float y)" for y by (cases y) simp_all
  then have "list_all (wt_val Float64) (map of_float ys)"
    by (simp add: list_all_iff)
  with assms Float64 show ?thesis by (auto simp: astype_def wt_column_def)
next
  case Int64
  with assms show ?thesis
    by (auto simp: astype_def wt_column_def list_all_iff split: if_splits)
next
  case NullableInt64
  with assms show ?thesis
    by (auto simp: astype_def wt_column_def list_all_iff split: if_splits option.splits)
next
  case Object
  with assms show ?thesis
    by (auto simp: astype_def wt_column_def list_all_iff)
qed

lemma interp1d_length: "interp1d kind x y x_new = Inr ys \<Longrightarrow> length ys = length x_new"
  by (auto simp: interp1d_def split: if_splits sum.splits)

lemma interpolate_column_result:
  assumes "interpolate_column fk ok x new_ts nc = Inr nc'"
  shows "fst nc' = fst nc \<and> col_dtype (snd nc') = col_dtype (snd nc) \<and> wt_column (snd nc') \<and>
         length (col_vals (snd nc')) = length new_ts"
proof -
  obtain name c where nc: "nc = (name, c)" by (cases nc)
  from assms nc obtain ys c' where
    i: "interp1d (if col_dtype c = Float64 then fk else ok) x (col_vals c) new_ts = Inr ys"
    and a: "astype (col_dtype c) ys = Inr c'" and r: "nc' = (name, c')"
    by (auto simp: interpolate_column_def split: sum.splits)
  from astype_result[OF a] interp1d_length[OF i] nc r show ?thesis by simp
qed

lemma filter_value_columns_same_names:
  assumes "list_all2 (\<lambda>a b. fst b = fst a) xs ys" and "list_all (\<lambda>(n, c). \<not> is_time_col n) xs"
  shows "filter (\<lambda>(n, c). \<not> is_time_col n) ys = ys"
  using assms by (induction xs ys rule: list_all2_induct) (auto)

lemma interpolate_value_columns:
  assumes "interpolate new_ts data fk ok = Inr out"
  shows "\<exists>x. int_values (the (map_of (columns data) ''timestamp [ns]'')) = Inr x \<and>
           traverse (interpolate_column fk ok x (sort new_ts)) (value_columns data)
             = Inr (value_columns out) \<and> nrows out = length new_ts"
proof -
  from assms obtain tcols x vcols where
    tc: "time_columns (sort new_ts) = Inr tcols" and
    x: "int_values (the (map_of (columns data) ''timestamp [ns]'')) = Inr x" and
    v: "traverse (interpolate_column fk ok x (sort new_ts)) (value_columns data) = Inr vcols" and
    o: "out = \<lparr>index = range_index (length (sort new_ts)), columns = tcols @ vcols\<rparr>"
    by (auto simp: interpolate_def Let_def split: sum.splits)
  have names: "list_all2 (\<lambda>a b. fst b = fst a) (value_columns data) vcols"
    using traverse_list_all2[OF v]
    by (rule list_all2_mono) (auto dest: interpolate_column_result)
  have "list_all (\<lambda>(n, c). \<not> is_time_col n) (value_columns data)"
    by (auto simp: value_columns_def list_all_iff)
  with names have f: "filter (\<lambda>(n, c). \<not> is_time_col n) vcols = vcols"
    by (rule filter_value_columns_same_names)
  have "filter (\<lambda>(n, c). \<not> is_time_col n) tcols = []"
    using tc by (auto simp: time_columns_def is_time_col_def split: list.splits)
  with f o have "value_columns out = vcols" by (simp add: value_columns_def)
  with x v o show ?thesis by (simp add: nrows_def range_index_def)
qed



lemma interp_at_out_of_range:
  "v < hd x \<or> last x < v \<Longrightarrow> interp_at kind x ys v = None"
  by (simp add: interp_at_def)





subsection \<open>New timestamps outside the source's range\<close>

lemma astype_None_missing:
  assumes "astype d ys = Inr c" and "i < length ys" and "ys ! i = None"
  shows "is_missing (col_vals c ! i)"
proof (cases d)
  case Int64
  from assms(2,3) have "None \<in> set ys" by (metis nth_mem)
  with assms(1) Int64 show ?thesis by (simp add: astype_def)
qed (use assms in \<open>auto simp: astype_def split: if_splits\<close>)

text \<open>
  In every table that \<^verbatim>\<open>interpolate\<close> returns, a row whose timestamp lies before the
  first or after the last source timestamp holds a missing marker in every value
  column.
\<close>

lemma interpolate_out_of_range_missing:
  assumes r: "interpolate new_ts data fk ok = Inr out"
      and x: "int_values (the (map_of (columns data) ''timestamp [ns]'')) = Inr x"
      and i: "i < length new_ts"
      and o: "sort new_ts ! i < hd x \<or> last x < sort new_ts ! i"
      and c: "(name, c) \<in> set (value_columns out)"
  shows "is_missing (col_vals c ! i)"
proof -
  from interpolate_value_columns[OF r] x have
    "traverse (interpolate_column fk ok x (sort new_ts)) (value_columns data)
       = Inr (value_columns out)" by simp
  from traverse_list_all2[OF this] have
    la: "list_all2 (\<lambda>a b. interpolate_column fk ok x (sort new_ts) a = Inr b)
           (value_columns data) (value_columns out)" .
  from c obtain j where j: "j < length (value_columns out)" "value_columns out ! j = (name, c)"
    by (auto simp: in_set_conv_nth)
  define nc where "nc = value_columns data ! j"
  from list_all2_nthD2[OF la j(1)] j(2) have
    "interpolate_column fk ok x (sort new_ts) nc = Inr (name, c)"
    by (simp add: nc_def)
  from this obtain kind y ys d where
    i1: "interp1d kind x y (sort new_ts) = Inr ys" and a: "astype d ys = Inr c"
    by (cases nc) (auto simp: interpolate_column_def split: sum.splits)
  from i1 obtain fs where
    ys: "ys = map (interp_at kind x fs) (sort new_ts)"
    by (auto simp: interp1d_def split: if_splits sum.splits)
  have "interp_at kind x fs (sort new_ts ! i) = None"
    using o by (rule interp_at_out_of_range)
  with ys i have "ys ! i = None" by simp
  with a i ys show ?thesis by (intro astype_None_missing[OF a]) simp_all
qed

text \<open>
  C4 says that a new timestamp outside the range of the source timestamps gets the
  missing marker in every value column and that nothing is raised. On an integer column
  the code raises. The source table \<open>mixed_tab\<close> covers the timestamps 0 to 20 and has
  the integer column \<^verbatim>\<open>worn\<close>. The new timestamp 30 lies outside: \<^verbatim>\<open>interp1d\<close>
  fills NaN there, and the cast back to the integer dtype of the source column raises
  \<^verbatim>\<open>IntCastingNaNError\<close>, so no table is returned.
\<close>

theorem interpolate_int_column_out_of_range_raises:
  "interpolate [4, 6, 30] mixed_tab Linear Nearest = Inl IntCastingNaNError"
  by code_simp

subsection \<open>Rounding to float64 on examples\<close>

text \<open>
  One third and one tenth as float64; \<open>2^53 + 1\<close>, a tie that goes to the even
  significand; and nanosecond timestamps near 1.7e18, where float64 numbers lie 256
  apart.
\<close>

lemma fl_examples:
  "fl (1 / 3) = 6004799503160661 / 18014398509481984"
  "fl (1 / 10) = 3602879701896397 / 36028797018963968"
  "fl (- 5 / 2) = - 5 / 2"
  "fl 9007199254740993 = 9007199254740992"
  "fl 9007199254740995 = 9007199254740996"
  "to_double 1700000000000000000 = 1700000000000000000"
  "to_double 1700000000000000100 = 1700000000000000000"
  "to_double 1700000000000000140 = 1700000000000000256"
  "to_double 1700000000000000200 = 1700000000000000256"
  "to_double 1700000000005000000 = 1700000000004999936"
  by code_simp+

subsection \<open>Interpolating at the source's own timestamps\<close>

lemma takeWhile_length_index:
  assumes "k \<le> length xs" and "\<And>i. i < k \<Longrightarrow> P (xs ! i)"
      and "k < length xs \<Longrightarrow> \<not> P (xs ! k)"
  shows "length (takeWhile P xs) = k"
proof -
  have "takeWhile P xs = take k xs"
    using assms(2,3) by (intro takeWhile_eq_take_P_nth) auto
  then show ?thesis using assms(1) by simp
qed

lemma strict_nth_less:
  fixes xs :: "('a :: linorder) list"
  assumes "sorted_wrt (<) xs" and "i < j" and "j < length xs"
  shows "xs ! i < xs ! j"
  using assms by (simp add: sorted_wrt_nth_less)

lemma strict_nth_le:
  fixes xs :: "('a :: linorder) list"
  assumes "sorted_wrt (<) xs" and "i \<le> j" and "j < length xs"
  shows "xs ! i \<le> xs ! j"
proof (cases "i = j")
  case True then show ?thesis by simp
next
  case False
  with assms(2) have "i < j" by simp
  from strict_nth_less[OF assms(1) this assms(3)] show ?thesis by simp
qed

lemma call_linear_knot:
  assumes s: "sorted_wrt (<) xs" and k: "k < length xs"
  shows "call_linear xs ys (xs ! k) = ys ! k"
proof -
  have c: "length (takeWhile (\<lambda>a. a \<le> xs ! k) xs) = Suc k"
  proof (rule takeWhile_length_index)
    show "Suc k \<le> length xs" using k by simp
    show "xs ! i \<le> xs ! k" if "i < Suc k" for i
      using strict_nth_le[OF s, of i k] that k by simp
    show "\<not> xs ! Suc k \<le> xs ! k" if "Suc k < length xs"
      using strict_nth_less[OF s, of k "Suc k"] that by simp
  qed
  have "length xs - Suc 0 = k" if "Suc k = length xs"
    using that by arith
  then show ?thesis by (auto simp: call_linear_def c Let_def)
qed

lemma x_bds_length: "length (x_bds xs) = length xs - 1"
  by (simp add: x_bds_def)

lemma x_bds_nth:
  assumes "Suc i < length xs"
  shows "x_bds xs ! i = fl (xs ! Suc i / 2 + xs ! i / 2)"
  using assms by (simp add: x_bds_def nth_tl nth_butlast)

lemma call_nearest_knot:
  assumes s: "sorted_wrt (<) xs" and k: "k < length xs"
      and m: "\<And>i. Suc i < length xs \<Longrightarrow>
                xs ! i \<le> fl (xs ! Suc i / 2 + xs ! i / 2) \<and>
                fl (xs ! Suc i / 2 + xs ! i / 2) < xs ! Suc i"
  shows "call_nearest xs ys (xs ! k) = ys ! k"
proof -
  have c: "length (takeWhile (\<lambda>a. a < xs ! k) (x_bds xs)) = k"
  proof (rule takeWhile_length_index)
    show "k \<le> length (x_bds xs)" using k by (simp add: x_bds_length)
    show "x_bds xs ! i < xs ! k" if "i < k" for i
    proof -
      from that k have si: "Suc i < length xs" by simp
      have "xs ! Suc i \<le> xs ! k" using strict_nth_le[OF s, of "Suc i" k] that k by simp
      with m[OF si] show ?thesis by (simp add: x_bds_nth[OF si])
    qed
    show "\<not> x_bds xs ! k < xs ! k" if "k < length (x_bds xs)"
    proof -
      from that have sk: "Suc k < length xs" by (simp add: x_bds_length)
      with m[OF sk] show ?thesis by (simp add: x_bds_nth[OF sk])
    qed
  qed
  show ?thesis using k by (simp add: call_nearest_def searchsorted_def c clip_def)
qed

lemma knots_apart_nth:
  assumes "knots_apart x" and "Suc i < length x"
  shows "to_double (x ! i) < to_double (x ! Suc i) \<and>
         to_double (x ! i) \<le> fl (to_double (x ! Suc i) / 2 + to_double (x ! i) / 2) \<and>
         fl (to_double (x ! Suc i) / 2 + to_double (x ! i) / 2) < to_double (x ! Suc i)"
proof -
  define d where "d = map to_double x"
  have l: "i < length (zip d (tl d))" using assms(2) by (simp add: d_def)
  from assms(1) have
    "list_all (\<lambda>(a, b). a < b \<and> a \<le> fl (b / 2 + a / 2) \<and> fl (b / 2 + a / 2) < b) (zip d (tl d))"
    by (simp add: knots_apart_def d_def Let_def)
  then have "(\<lambda>(a, b). a < b \<and> a \<le> fl (b / 2 + a / 2) \<and> fl (b / 2 + a / 2) < b) (zip d (tl d) ! i)"
    using l by (simp add: list_all_length)
  moreover have "zip d (tl d) ! i = (to_double (x ! i), to_double (x ! Suc i))"
    using assms(2) by (simp add: d_def nth_tl)
  ultimately show ?thesis by simp
qed

lemma knots_apart_sorted:
  assumes "knots_apart x"
  shows "sorted_wrt (<) (map to_double x)"
proof -
  have "\<forall>i. Suc i < length (map to_double x) \<longrightarrow>
          map to_double x ! i < map to_double x ! Suc i"
    using knots_apart_nth[OF assms] by simp
  then show ?thesis
    by (subst sorted_wrt_iff_nth_Suc_transp) (auto intro: transpI)
qed

lemma interp_at_knot:
  assumes s: "sorted_wrt (<) x" and a: "knots_apart x" and k: "k < length x"
  shows "interp_at kind x ys (x ! k) = ys ! k"
proof -
  define d where "d = map to_double x"
  from k have ne: "x \<noteq> []" by auto
  have dk: "to_double (x ! k) = d ! k" and ld: "k < length d" using k by (simp_all add: d_def)
  have sd: "sorted_wrt (<) d" using knots_apart_sorted[OF a] by (simp add: d_def)
  have m: "d ! i \<le> fl (d ! Suc i / 2 + d ! i / 2) \<and> fl (d ! Suc i / 2 + d ! i / 2) < d ! Suc i"
    if "Suc i < length d" for i
    using knots_apart_nth[OF a, of i] that by (simp add: d_def)
  have "hd x \<le> x ! k" using strict_nth_le[OF s, of 0 k] k ne by (simp add: hd_conv_nth)
  moreover have "x ! k \<le> last x"
    using strict_nth_le[OF s, of k "length x - 1"] k ne by (simp add: last_conv_nth)
  ultimately show ?thesis
    using call_linear_knot[OF sd ld, of ys] call_nearest_knot[OF sd ld m, of ys]
    by (cases kind) (simp_all add: interp_at_def dk flip: d_def)
qed

lemma interp_at_all_knots:
  assumes s: "sorted_wrt (<) x" and a: "knots_apart x" and l: "length ys = length x"
  shows "map (interp_at kind x ys) x = ys"
  using interp_at_knot[OF s a] l by (simp add: list_eq_iff_nth_eq)

lemma traverse_Inr_map:
  assumes "\<And>v. v \<in> set xs \<Longrightarrow> f v = Inr (g v)"
  shows "traverse f xs = Inr (map g xs)"
  using assms by (induction xs) auto

lemma any_decrease_sorted:
  "sorted_wrt (<) (x :: int list) \<Longrightarrow> any_decrease (map VInt x) = Inr False"
proof (induction x rule: induct_list012)
  case (3 a b rest)
  then show ?case by auto
qed simp_all

lemma to_float64_wt:
  assumes "wt_val d v" and "d \<noteq> Object" and "exact_cell v"
  shows "to_float64 v = Inr (num_of v)"
  using assms by (cases d; cases v) (simp_all add: num_of_def)

lemma astype_back:
  assumes "wt_column c" and "col_dtype c \<noteq> Object"
  shows "astype (col_dtype c) (map num_of (col_vals c)) = Inr c"
proof -
  have wt: "\<And>v. v \<in> set (col_vals c) \<Longrightarrow> wt_val (col_dtype c) v"
    using assms(1) by (simp add: wt_column_def list_all_iff)
  show ?thesis
  proof (cases "col_dtype c")
    case Float64
    have "of_float (num_of v) = v" if "v \<in> set (col_vals c)" for v
      using wt[OF that] Float64 by (cases v) (simp_all add: num_of_def)
    then have "map (of_float \<circ> num_of) (col_vals c) = col_vals c"
      by (simp add: map_idI)
    then show ?thesis using Float64 by (simp add: astype_def)
  next
    case Int64
    have v: "\<exists>i. v = VInt i" if "v \<in> set (col_vals c)" for v
      using wt[OF that] Int64 by (cases v) simp_all
    have "num_of v \<noteq> None" if "v \<in> set (col_vals c)" for v
      using v[OF that] by (auto simp: num_of_def)
    then have "None \<notin> set (map num_of (col_vals c))"
      by (metis (no_types, lifting) imageE list.set_map)
    moreover have "VInt (py_int (the (num_of v))) = v" if "v \<in> set (col_vals c)" for v
      using v[OF that] by (auto simp: num_of_def py_int_def)
    then have "map ((\<lambda>y. VInt (py_int (the y))) \<circ> num_of) (col_vals c) = col_vals c"
      by (simp add: map_idI)
    ultimately show ?thesis using Int64 by (simp add: astype_def)
  next
    case NullableInt64
    have v: "v = VNA \<or> (\<exists>i. v = VInt i)" if "v \<in> set (col_vals c)" for v
      using wt[OF that] NullableInt64 by (cases v) simp_all
    then have "\<not> list_ex (\<lambda>y. case y of None \<Rightarrow> False | Some r \<Rightarrow> of_int \<lfloor>r\<rfloor> \<noteq> r)
                  (map num_of (col_vals c))"
      by (auto simp: list_ex_iff num_of_def split: option.splits val.splits
          simp del: of_int_floor_cancel)
    moreover have "(case num_of v of None \<Rightarrow> VNA | Some r \<Rightarrow> VInt \<lfloor>r\<rfloor>) = v"
      if "v \<in> set (col_vals c)" for v
      using v[OF that] by (auto simp: num_of_def)
    then have "map ((\<lambda>y. case y of None \<Rightarrow> VNA | Some r \<Rightarrow> VInt \<lfloor>r\<rfloor>) \<circ> num_of) (col_vals c)
                 = col_vals c"
      by (simp add: map_idI)
    ultimately show ?thesis using NullableInt64
      by (simp add: astype_def del: of_int_floor_cancel)
  next
    case Object
    with assms(2) show ?thesis by simp
  qed
qed

lemma interpolate_column_identity:
  assumes s: "sorted_wrt (<) x" and a: "knots_apart x" and ne: "x \<noteq> []"
      and wt: "wt_column c" and d: "col_dtype c \<noteq> Object"
      and e: "list_all exact_cell (col_vals c)" and l: "length (col_vals c) = length x"
  shows "interpolate_column fk ok x x (name, c) = Inr (name, c)"
proof -
  have t: "traverse to_float64 (col_vals c) = Inr (map num_of (col_vals c))"
    using wt d e by (intro traverse_Inr_map to_float64_wt[of "col_dtype c"])
      (simp_all add: wt_column_def list_all_iff)
  have "map (interp_at kind x (map num_of (col_vals c))) x = map num_of (col_vals c)" for kind
    using interp_at_all_knots[OF s a, of "map num_of (col_vals c)"] l by simp
  then have "interp1d kind x (col_vals c) x = Inr (map num_of (col_vals c))" for kind
    using l ne t by (simp add: interp1d_def)
  then show ?thesis
    using astype_back[OF wt d] by (simp add: interpolate_column_def)
qed

lemma traverse_identity:
  assumes "\<And>v. v \<in> set xs \<Longrightarrow> f v = Inr v"
  shows "traverse f xs = Inr xs"
  using assms by (induction xs) auto

text \<open>
  C5, as the code has it. Take a source table with at least two rows whose timestamps
  are strictly increasing and so far apart that their float64 images differ and the
  float64 midpoint of two consecutive ones lies at or after the earlier and strictly
  before the later (\<open>knots_apart\<close>), and whose value columns are well-typed numeric
  columns of the table's length whose integer cells float64 holds exactly. Interpolating
  it at its own timestamps returns a table with the same timestamps, with every value
  column reproduced exactly (name, dtype, cells and order), with a fresh index and with
  the relative time recomputed from the first timestamp.
\<close>

theorem interpolate_identity:
  assumes ts: "map_of (columns data) ''timestamp [ns]'' = Some tc"
      and tv: "col_vals tc = map VInt x"
      and two: "2 \<le> length x"
      and s: "sorted_wrt (<) x"
      and a: "knots_apart x"
      and cols: "\<forall>(name, c) \<in> set (value_columns data).
                   wt_column c \<and> col_dtype c \<noteq> Object \<and> list_all exact_cell (col_vals c) \<and>
                   length (col_vals c) = length x"
  shows "interpolate x data float_kind other_kind =
           Inr \<lparr>index = range_index (length x),
                columns =
                  [(''timestamp [ns]'', \<lparr>col_dtype = NullableInt64, col_vals = map VInt x\<rparr>),
                   (''time [s]'',
                    \<lparr>col_dtype = Float64,
                     col_vals = map (\<lambda>t. VFloat (of_int (t - hd x) / 1000000000)) x\<rparr>)]
                  @ value_columns data\<rparr>"
proof -
  from two have ne: "x \<noteq> []" by auto
  have cd: "check_data data ''timestamp [ns]'' = Inr ()"
    using ts tv any_decrease_sorted[OF s] by (simp add: check_data_def)
  have so: "sort x = x" using s by (simp add: strict_sorted_iff sorted_sort_id)
  have "traverse int_cell (map VInt y) = Inr y" for y
    by (induction y) simp_all
  then have iv: "int_values tc = Inr x"
    using tv by (simp add: int_values_def)
  have tr: "traverse (interpolate_column float_kind other_kind x x) (value_columns data)
              = Inr (value_columns data)"
  proof (rule traverse_identity)
    fix v assume v: "v \<in> set (value_columns data)"
    obtain name c where nc: "v = (name, c)" by (cases v)
    with v cols have "wt_column c" "col_dtype c \<noteq> Object" "list_all exact_cell (col_vals c)"
      "length (col_vals c) = length x"
      by auto
    from interpolate_column_identity[OF s a ne this] nc
    show "interpolate_column float_kind other_kind x x v = Inr v" by simp
  qed
  obtain t0 rest where x: "x = t0 # rest" using ne by (cases x) auto
  have tcs: "time_columns x =
     Inr [(''timestamp [ns]'', \<lparr>col_dtype = NullableInt64, col_vals = map VInt x\<rparr>),
          (''time [s]'',
           \<lparr>col_dtype = Float64,
            col_vals = map (\<lambda>t. VFloat (of_int (t - hd x) / 1000000000)) x\<rparr>)]"
    unfolding x by (simp add: time_columns_def)
  show ?thesis
    unfolding interpolate_def Let_def so by (simp add: cd tcs ts iv tr)
qed

theorem interpolate_identity_witness:
  "interpolate [1700000000000000000, 1700000000005000000, 1700000000010000000] epoch_tab
     Linear Nearest =
     Inr \<lparr>index = [0, 1, 2],
          columns =
            [(''timestamp [ns]'',
              \<lparr>col_dtype = NullableInt64,
               col_vals = [VInt 1700000000000000000, VInt 1700000000005000000,
                           VInt 1700000000010000000]\<rparr>),
             (''time [s]'',
              \<lparr>col_dtype = Float64,
               col_vals = [VFloat 0, VFloat (1 / 200), VFloat (1 / 100)]\<rparr>),
             (''gaze x [px]'',
              \<lparr>col_dtype = Float64, col_vals = [VFloat 1, VFloat 2, VFloat 4]\<rparr>),
             (''worn'', \<lparr>col_dtype = Int64, col_vals = [VInt 1, VInt 2, VInt 3]\<rparr>)]\<rparr>"
proof -
  let ?x = "[1700000000000000000, 1700000000005000000, 1700000000010000000 :: int]"
  let ?tc = "\<lparr>col_dtype = Int64, col_vals = map VInt ?x\<rparr>"
  have h1: "map_of (columns epoch_tab) ''timestamp [ns]'' = Some ?tc" by code_simp
  have h2: "col_vals ?tc = map VInt ?x" by simp
  have h3: "2 \<le> length ?x" by simp
  have h4: "sorted_wrt (<) ?x" by simp
  have h5: "knots_apart ?x" by code_simp
  have v: "value_columns epoch_tab =
      [(''gaze x [px]'', \<lparr>col_dtype = Float64, col_vals = [VFloat 1, VFloat 2, VFloat 4]\<rparr>),
       (''worn'', \<lparr>col_dtype = Int64, col_vals = [VInt 1, VInt 2, VInt 3]\<rparr>)]"
    by code_simp
  have e: "exact_cell (VInt 1)" "exact_cell (VInt 2)" "exact_cell (VInt 3)" by code_simp+
  have h6: "\<forall>(name, c) \<in> set (value_columns epoch_tab).
       wt_column c \<and> col_dtype c \<noteq> Object \<and> list_all exact_cell (col_vals c) \<and>
       length (col_vals c) = length ?x"
    unfolding v using e by (simp add: wt_column_def)
  show ?thesis
    using interpolate_identity[OF h1 h2 h3 h4 h5 h6, of Linear Nearest] unfolding v
    by (simp add: range_index_def upt_conv_Cons)
qed

text \<open>
  C5, as the specification words it, fails in two ways. On a table that repeats a
  timestamp: \<open>dup_tab\<close> passes \<^verbatim>\<open>_check_data\<close> and has three rows, its distinct
  timestamps are 0 and 10, and the table returned for them has two rows. And on a table
  whose timestamps float64 cannot tell apart: the timestamps of \<open>close_tab\<close> are
  distinct and increasing, 100 ns apart at 1.7e18, where float64 numbers lie 256 apart;
  the first two are one abscissa to \<^verbatim>\<open>interp1d\<close>, and the returned table holds
  2, 2, 4 and 1, 1, 3 where the source holds 1, 2, 4 and 1, 2, 3.
\<close>

theorem interpolate_identity_counterexample:
  "check_data dup_tab ''timestamp [ns]'' = Inr () \<and>
   remdups [0, 0, 10 :: int] = [0, 10] \<and>
   returned_rows (interpolate [0, 10] dup_tab Linear Nearest) = Some 2 \<and>
   nrows dup_tab = 3 \<and>
   interpolate [0, 10] dup_tab Linear Nearest \<noteq> Inr dup_tab \<and>
   interpolate [1700000000000000000, 1700000000000000100, 1700000000000000200] close_tab
     Linear Nearest = Inr close_out \<and>
   value_columns close_out \<noteq> value_columns close_tab"
  by code_simp

subsection \<open>The downsampling check of \<^verbatim>\<open>window_average\<close>\<close>

lemma traverse_Inl:
  "traverse f xs = Inl e \<Longrightarrow> \<exists>x \<in> set xs. f x = Inl e"
  by (induction xs) (auto split: sum.splits)

lemma series_mean_error: "series_mean d vs = Inl e \<Longrightarrow> e = TypeError"
proof -
  assume a: "series_mean d vs = Inl e"
  then have "traverse mean_cell vs = Inl e"
    by (auto simp: series_mean_def Let_def split: sum.splits if_splits)
  from traverse_Inl[OF this] obtain v where "mean_cell v = Inl e" by blast
  then show ?thesis by (cases v) simp_all
qed

lemma window_value_error: "window_value x c w t = Inl e \<Longrightarrow> e = TypeError"
  by (auto simp: window_value_def split: if_splits dest: series_mean_error)

lemma window_column_error: "window_column x w new_ts nc = Inl e \<Longrightarrow> e = TypeError"
proof -
  assume a: "window_column x w new_ts nc = Inl e"
  obtain name c where nc: "nc = (name, c)" by (cases nc)
  with a have "traverse (window_value x c w) new_ts = Inl e"
    by (auto simp: window_column_def split: sum.splits)
  from traverse_Inl[OF this] show ?thesis by (auto dest: window_value_error)
qed

lemma window_columns_error:
  "traverse (window_column x w new_ts) cols = Inl e \<Longrightarrow> e = TypeError"
  by (drule traverse_Inl) (auto dest: window_column_error)

lemma time_columns_error: "time_columns ts = Inl e \<Longrightarrow> e = IndexError"
  by (auto simp: time_columns_def split: list.splits)

lemma default_window_size_error:
  "default_window_size m = Inl e \<Longrightarrow> e = ValueError ''cannot convert float NaN to integer''"
  by (auto simp: default_window_size_def split: option.splits)

text \<open>
  C6. For a source table that \<^verbatim>\<open>_check_data\<close> accepts, \<^verbatim>\<open>window_average\<close> fails
  with the error "new_ts must have a lower sampling frequency than the old data" exactly
  when the median spacing of the sorted new timestamps is smaller than the mean spacing
  of the source timestamps. The comparison is that of floats: it is false when either
  side is NaN, which is the case for fewer than two timestamps. A failure is the value
  \<open>Inl\<close>, which carries no table: nothing partial is returned, and the check comes before
  any column is computed.
\<close>

theorem window_average_downsampling_check:
  assumes cd: "check_data data ''timestamp [ns]'' = Inr ()"
      and x: "int_values (the (map_of (columns data) ''timestamp [ns]'')) = Inr x"
  shows "window_average new_ts data window_size = Inl (ValueError downsampling_message)
         \<longleftrightarrow> float_less (np_median (np_diff (sort new_ts))) (np_mean (np_diff x))"
proof
  assume "float_less (np_median (np_diff (sort new_ts))) (np_mean (np_diff x))"
  then show "window_average new_ts data window_size = Inl (ValueError downsampling_message)"
    using cd x by (simp add: window_average_def Let_def)
next
  assume a: "window_average new_ts data window_size = Inl (ValueError downsampling_message)"
  show "float_less (np_median (np_diff (sort new_ts))) (np_mean (np_diff x))"
  proof (rule ccontr)
    assume n: "\<not> float_less (np_median (np_diff (sort new_ts))) (np_mean (np_diff x))"
    have m: "downsampling_message \<noteq> ''cannot convert float NaN to integer''"
      by (simp add: downsampling_message_def)
    from a cd x n show False
      by (auto simp: window_average_def Let_def m
          split: sum.splits option.splits
          dest!: window_columns_error time_columns_error default_window_size_error)
  qed
qed

theorem window_average_downsampling_check_witness:
  "check_data mixed_tab ''timestamp [ns]'' = Inr () \<and>
   int_values (the (map_of (columns mixed_tab) ''timestamp [ns]'')) = Inr [0, 10, 20] \<and>
   np_median (np_diff (sort [10, 0, 5])) = Some 5 \<and>
   np_mean (np_diff [0, 10, 20]) = Some 10 \<and>
   window_average [10, 0, 5] mixed_tab None = Inl (ValueError downsampling_message)"
proof -
  have h1: "check_data mixed_tab ''timestamp [ns]'' = Inr ()" by code_simp
  have h2: "int_values (the (map_of (columns mixed_tab) ''timestamp [ns]'')) = Inr [0, 10, 20]"
    by code_simp
  have h3: "np_median (np_diff (sort [10, 0, 5])) = Some 5" by code_simp
  have h4: "np_mean (np_diff [0, 10, 20]) = Some 10" by code_simp
  have "float_less (np_median (np_diff (sort [10, 0, 5]))) (np_mean (np_diff [0, 10, 20]))"
    unfolding h3 h4 by (simp add: float_less_def)
  then show ?thesis
    using h1 h2 h3 h4 window_average_downsampling_check[OF h1 h2, of "[10, 0, 5]" None]
    by simp
qed

subsection \<open>Columns of \<^verbatim>\<open>window_average\<close>\<close>

lemma present_numbers:
  "traverse mean_cell vs = Inr fs \<Longrightarrow> present fs = numbers vs"
proof (induction vs arbitrary: fs)
  case Nil
  then show ?case by (simp add: present_def numbers_def)
next
  case (Cons v vs)
  from Cons.prems obtain f fs' where
    f: "mean_cell v = Inr f" and t: "traverse mean_cell vs = Inr fs'" and fs: "fs = f # fs'"
    by (auto split: sum.splits)
  from Cons.IH[OF t] have "present fs' = numbers vs" .
  with f fs show ?case by (cases v) (auto simp: present_def numbers_def)
qed

lemma series_mean_result:
  assumes "series_mean d vs = Inr v"
  shows "v = (if numbers vs = [] then (if d = NullableInt64 then VNA else VNaN)
              else VFloat (sum_list (numbers vs) / of_nat (length (numbers vs))))"
proof -
  from assms obtain fs where t: "traverse mean_cell vs = Inr fs"
    by (auto simp: series_mean_def split: sum.splits)
  from assms t show ?thesis
    by (auto simp: series_mean_def present_numbers[OF t] split: if_splits)
qed

lemma window_value_result:
  assumes "window_value x c w ts = Inr v"
  shows "v = (let ps = numbers (map snd (filter (\<lambda>(t, v). in_window w ts t) (zip x (col_vals c))))
              in if filter (in_window w ts) x = [] then VNaN
                 else if ps = [] then (if col_dtype c = NullableInt64 then VNA else VNaN)
                 else VFloat (sum_list ps / of_nat (length ps)))"
proof (cases "filter (in_window w ts) x = []")
  case True
  with assms show ?thesis by (simp add: window_value_def Let_def)
next
  case False
  with assms have
    "series_mean (col_dtype c)
       (map snd (filter (\<lambda>(t, v). in_window w ts t) (zip x (col_vals c)))) = Inr v"
    by (simp add: window_value_def window_cells_def)
  from series_mean_result[OF this] False show ?thesis by (simp add: Let_def)
qed

lemma window_value_not_NA:
  assumes "window_value x c w ts = Inr v" and "col_dtype c \<noteq> NullableInt64"
  shows "v \<noteq> VNA \<and> wt_val Float64 v"
  using window_value_result[OF assms(1)] assms(2) by (simp add: Let_def split: if_splits)

lemma window_column_result:
  assumes "window_column x w new_ts nc = Inr nc'"
  shows "fst nc' = fst nc \<and>
         col_dtype (snd nc') = (if VNA \<in> set (col_vals (snd nc')) then Object else Float64) \<and>
         length (col_vals (snd nc')) = length new_ts \<and>
         traverse (window_value x (snd nc) w) new_ts = Inr (col_vals (snd nc'))"
proof -
  obtain name c where nc: "nc = (name, c)" by (cases nc)
  from assms nc obtain vs where
    t: "traverse (window_value x c w) new_ts = Inr vs"
    and r: "nc' = (name, \<lparr>col_dtype = inferred_dtype vs, col_vals = vs\<rparr>)"
    by (auto simp: window_column_def split: sum.splits)
  with nc traverse_length[OF t] show ?thesis by (simp add: inferred_dtype_def)
qed

lemma window_column_cell:
  assumes r: "window_column x w new_ts nc = Inr nc'" and i: "i < length new_ts"
  shows "window_value x (snd nc) w (new_ts ! i) = Inr (col_vals (snd nc') ! i)"
proof -
  from window_column_result[OF r] have
    t: "traverse (window_value x (snd nc) w) new_ts = Inr (col_vals (snd nc'))" by simp
  from list_all2_nthD[OF traverse_list_all2[OF t] i] show ?thesis .
qed

lemma window_column_float:
  assumes r: "window_column x w new_ts nc = Inr nc'" and d: "col_dtype (snd nc) \<noteq> NullableInt64"
  shows "col_dtype (snd nc') = Float64 \<and> wt_column (snd nc')"
proof -
  have l: "length (col_vals (snd nc')) = length new_ts"
    using window_column_result[OF r] by simp
  have c: "col_vals (snd nc') ! i \<noteq> VNA \<and> wt_val Float64 (col_vals (snd nc') ! i)"
    if "i < length new_ts" for i
    using window_value_not_NA[OF window_column_cell[OF r that] d] .
  have n: "VNA \<notin> set (col_vals (snd nc'))"
    using c l by (auto simp: in_set_conv_nth)
  with window_column_result[OF r] have f: "col_dtype (snd nc') = Float64" by simp
  have "list_all (wt_val Float64) (col_vals (snd nc'))"
    using c l by (simp add: list_all_length)
  with f show ?thesis by (simp add: wt_column_def)
qed

lemma window_average_value_columns:
  assumes r: "window_average new_ts data window_size = Inr out"
      and x: "int_values (the (map_of (columns data) ''timestamp [ns]'')) = Inr x"
  shows "traverse (window_column x (window_size_used new_ts window_size) (sort new_ts))
           (value_columns data) = Inr (value_columns out) \<and> nrows out = length new_ts"
proof -
  from r x obtain w tcols vcols where
    w: "(case window_size of None \<Rightarrow> default_window_size (np_median (np_diff (sort new_ts)))
         | Some w \<Rightarrow> Inr w) = Inr w" and
    tc: "time_columns (sort new_ts) = Inr tcols" and
    v: "traverse (window_column x w (sort new_ts)) (value_columns data) = Inr vcols" and
    o: "out = \<lparr>index = range_index (length (sort new_ts)), columns = tcols @ vcols\<rparr>"
    by (auto simp: window_average_def Let_def split: sum.splits if_splits)
  from w have we: "w = window_size_used new_ts window_size"
    by (auto simp: window_size_used_def default_window_size_def split: option.splits)
  have names: "list_all2 (\<lambda>a b. fst b = fst a) (value_columns data) vcols"
    using traverse_list_all2[OF v]
    by (rule list_all2_mono) (auto dest: window_column_result)
  have "list_all (\<lambda>(n, c). \<not> is_time_col n) (value_columns data)"
    by (auto simp: value_columns_def list_all_iff)
  with names have f: "filter (\<lambda>(n, c). \<not> is_time_col n) vcols = vcols"
    by (rule filter_value_columns_same_names)
  have "filter (\<lambda>(n, c). \<not> is_time_col n) tcols = []"
    using tc by (auto simp: time_columns_def is_time_col_def split: list.splits)
  with f o have "value_columns out = vcols" by (simp add: value_columns_def)
  with v o we show ?thesis by (simp add: nrows_def range_index_def)
qed

text \<open>
  C10, as the code has it. Whenever \<^verbatim>\<open>window_average\<close> returns a table, its value
  columns are those of the source in the same order and under the same names, with one
  cell per new timestamp. The cell of row \<open>i\<close> is NaN when the code selects no source
  row for the window around the \<open>i\<close>-th new timestamp; otherwise it is the arithmetic
  mean, a float, of the numbers that the column holds in the selected rows, missing
  cells being skipped, and when the selected rows hold no number at all it is the
  missing marker of the source column: \<^verbatim>\<open>pd.NA\<close> for a nullable integer column and NaN
  for any other. The dtype of the column is inferred from these cells: it is the float
  dtype, except that a column with a \<^verbatim>\<open>pd.NA\<close> cell has the object dtype. So a source
  column of any dtype but the nullable integer one comes back as a float column.
\<close>

theorem window_average_float_dtype:
  assumes r: "window_average new_ts data window_size = Inr out"
      and x: "int_values (the (map_of (columns data) ''timestamp [ns]'')) = Inr x"
  shows "list_all2 (\<lambda>(name, c) (name', c').
            name' = name \<and> length (col_vals c') = nrows out \<and>
            col_dtype c' = (if VNA \<in> set (col_vals c') then Object else Float64) \<and>
            (col_dtype c \<noteq> NullableInt64 \<longrightarrow> col_dtype c' = Float64 \<and> wt_column c') \<and>
            (\<forall>i < nrows out.
               let w = window_size_used new_ts window_size;
                   ts = sort new_ts ! i;
                   ps = numbers (map snd (filter (\<lambda>(t, v). in_window w ts t) (zip x (col_vals c))))
               in col_vals c' ! i =
                    (if filter (in_window w ts) x = [] then VNaN
                     else if ps = [] then (if col_dtype c = NullableInt64 then VNA else VNaN)
                     else VFloat (sum_list ps / of_nat (length ps)))))
          (value_columns data) (value_columns out)"
proof -
  let ?w = "window_size_used new_ts window_size"
  from window_average_value_columns[OF r x] have
    v: "traverse (window_column x ?w (sort new_ts)) (value_columns data)
          = Inr (value_columns out)" and n: "nrows out = length new_ts"
    by simp_all
  show ?thesis
    using traverse_list_all2[OF v]
  proof (rule list_all2_mono)
    fix a b
    assume wc: "window_column x ?w (sort new_ts) a = Inr b"
    obtain name c where a: "a = (name, c)" by (cases a)
    obtain name' c' where b: "b = (name', c')" by (cases b)
    from window_column_result[OF wc] a b have
      p1: "name' = name" and
      p2: "col_dtype c' = (if VNA \<in> set (col_vals c') then Object else Float64)" and
      p3: "length (col_vals c') = nrows out"
      using n by simp_all
    have p4: "col_dtype c \<noteq> NullableInt64 \<longrightarrow> col_dtype c' = Float64 \<and> wt_column c'"
      using window_column_float[OF wc] a b by simp
    have p5: "let w = ?w; ts = sort new_ts ! i;
                  ps = numbers (map snd (filter (\<lambda>(t, v). in_window w ts t) (zip x (col_vals c))))
              in col_vals c' ! i =
                   (if filter (in_window w ts) x = [] then VNaN
                    else if ps = [] then (if col_dtype c = NullableInt64 then VNA else VNaN)
                    else VFloat (sum_list ps / of_nat (length ps)))"
      if "i < nrows out" for i
    proof -
      from that n have "i < length (sort new_ts)" by simp
      from window_column_cell[OF wc this] a b have
        "window_value x c ?w (sort new_ts ! i) = Inr (col_vals c' ! i)" by simp
      from window_value_result[OF this] show ?thesis by (simp add: Let_def)
    qed
    from p1 p2 p3 p4 p5 show "(case a of (name, c) \<Rightarrow> \<lambda>(name', c').
            name' = name \<and> length (col_vals c') = nrows out \<and>
            col_dtype c' = (if VNA \<in> set (col_vals c') then Object else Float64) \<and>
            (col_dtype c \<noteq> NullableInt64 \<longrightarrow> col_dtype c' = Float64 \<and> wt_column c') \<and>
            (\<forall>i < nrows out.
               let w = window_size_used new_ts window_size;
                   ts = sort new_ts ! i;
                   ps = numbers (map snd (filter (\<lambda>(t, v). in_window w ts t) (zip x (col_vals c))))
               in col_vals c' ! i =
                    (if filter (in_window w ts) x = [] then VNaN
                     else if ps = [] then (if col_dtype c = NullableInt64 then VNA else VNaN)
                     else VFloat (sum_list ps / of_nat (length ps))))) b"
      unfolding a b by simp
  qed
qed

theorem window_average_float_dtype_witness:
  "window_average [0, 20] mixed_tab None = Inr coarse_out \<and>
   int_values (the (map_of (columns mixed_tab) ''timestamp [ns]'')) = Inr [0, 10, 20] \<and>
   map (\<lambda>(name, c). (name, col_dtype c)) (value_columns mixed_tab)
     = [(''gaze x [px]'', Float64), (''worn'', Int64)] \<and>
   map (\<lambda>(name, c). (name, col_dtype c)) (value_columns coarse_out)
     = [(''gaze x [px]'', Float64), (''worn'', Float64)] \<and>
   map_option col_vals (map_of (columns coarse_out) ''worn'')
     = Some [VFloat (1 / 2), VFloat (1 / 2)] \<and>
   numbers (map snd (filter (\<lambda>(t, v). in_window 20 20 t) (zip [0, 10, 20] [VInt 1, VInt 0, VInt 1])))
     = [0, 1]"
proof -
  have h: "window_average [0, 20] mixed_tab None = Inr coarse_out" by code_simp
  have x: "int_values (the (map_of (columns mixed_tab) ''timestamp [ns]'')) = Inr [0, 10, 20]"
    by code_simp
  have "map (\<lambda>(name, c). (name, col_dtype c)) (value_columns mixed_tab)
     = [(''gaze x [px]'', Float64), (''worn'', Int64)]" by code_simp
  moreover have "map (\<lambda>(name, c). (name, col_dtype c)) (value_columns coarse_out)
     = [(''gaze x [px]'', Float64), (''worn'', Float64)]" by code_simp
  moreover have "map_option col_vals (map_of (columns coarse_out) ''worn'')
     = Some [VFloat (1 / 2), VFloat (1 / 2)]" by code_simp
  moreover have "numbers (map snd (filter (\<lambda>(t, v). in_window 20 20 t)
      (zip [0, 10, 20] [VInt 1, VInt 0, VInt 1]))) = [0, 1]" by code_simp
  ultimately show ?thesis using h x window_average_float_dtype[OF h x] by simp
qed

text \<open>
  C10, as the specification words it, promises the float dtype for every value column.
  The nullable integer column of \<open>na_tab\<close> holds no number. The window around 0 selects
  both rows, and the mean of a nullable column without a number is \<^verbatim>\<open>pd.NA\<close>; the
  window around 100 selects no row, which gives NaN. A column made of the list of these
  two has the object dtype.
\<close>

theorem window_average_dtype_counterexample:
  "window_average [0, 100] na_tab (Some 100) = Inr na_out \<and>
   map_option col_dtype (map_of (columns na_tab) ''worn'') = Some NullableInt64 \<and>
   map_option col_dtype (map_of (columns na_out) ''worn'') = Some Object \<and>
   map_option col_vals (map_of (columns na_out) ''worn'') = Some [VNA, VNaN]"
  by code_simp

subsection \<open>Empty windows\<close>

text \<open>
  When the code selects no source row for the window around the \<open>i\<close>-th new timestamp,
  computing that cell returns NaN without looking at the column, so it cannot raise,
  whatever the column holds; and in every table that \<^verbatim>\<open>window_average\<close> returns, row
  \<open>i\<close> of every value column is NaN, which is not zero.
\<close>

lemma window_value_empty:
  "filter (in_window w t) x = [] \<Longrightarrow> window_value x c w t = Inr VNaN"
  by (simp add: window_value_def)

lemma window_average_empty_selection:
  assumes r: "window_average new_ts data window_size = Inr out"
      and x: "int_values (the (map_of (columns data) ''timestamp [ns]'')) = Inr x"
      and i: "i < length new_ts"
      and e: "filter (in_window (window_size_used new_ts window_size) (sort new_ts ! i)) x = []"
      and c: "(name, c) \<in> set (value_columns out)"
  shows "col_vals c ! i = VNaN \<and> col_vals c ! i \<noteq> VFloat 0"
proof -
  let ?w = "window_size_used new_ts window_size"
  from window_average_value_columns[OF r x] have
    la: "list_all2 (\<lambda>a b. window_column x ?w (sort new_ts) a = Inr b)
           (value_columns data) (value_columns out)"
    by (auto dest: traverse_list_all2)
  from c obtain j where j: "j < length (value_columns out)" "value_columns out ! j = (name, c)"
    by (auto simp: in_set_conv_nth)
  define nc where "nc = value_columns data ! j"
  from list_all2_nthD2[OF la j(1)] j(2) have
    wc: "window_column x ?w (sort new_ts) nc = Inr (name, c)"
    by (simp add: nc_def)
  from i have "i < length (sort new_ts)" by simp
  from window_column_cell[OF wc this] have
    "window_value x (snd nc) ?w (sort new_ts ! i) = Inr (col_vals c ! i)" by simp
  with window_value_empty[OF e, of "snd nc"] show ?thesis by simp
qed

text \<open>
  C9 speaks of the window \<open>[ts - window/2, ts + window/2]\<close>. The code computes the two
  bounds in float64 and compares the source timestamps with them as float64 (lines 161
  to 166). At the timestamps of a recording, near 1.7e18 ns, float64 numbers lie 256
  apart. The table \<open>far_tab\<close> has rows at \<open>T\<close> and \<open>T + 140\<close> for
  \<open>T = 1700000000000000000\<close>. The window of 100 ns around the new timestamp
  \<open>T + 200\<close> is \<open>[T + 150, T + 250]\<close> and contains neither. In float64 the new
  timestamp, both bounds and the row at \<open>T + 140\<close> all round to \<open>T + 256\<close>: the code
  selects that row and returns its value 2 where the claim promises the missing marker.
\<close>

theorem window_average_window_rounding:
  "filter (spec_in_window 100 1700000000000000200)
     [1700000000000000000, 1700000000000000140] = [] \<and>
   filter (in_window 100 1700000000000000200)
     [1700000000000000000, 1700000000000000140] = [1700000000000000140] \<and>
   window_average [1700000000000000200] far_tab (Some 100) = Inr far_out \<and>
   map_option col_vals (map_of (columns far_out) ''gaze x [px]'') = Some [VFloat 2]"
  by code_simp

text \<open>
  An example with empty selections: the windows of 100 ns around 100 and around 200
  select no row of \<open>mixed_tab\<close>.
\<close>

lemma window_average_sparse_example:
  "window_average [0, 200, 100] mixed_tab None = Inr sparse_out \<and>
   filter (in_window 100 100) [0, 10, 20] = [] \<and>
   filter (in_window 100 200) [0, 10, 20] = []"
  by code_simp

text \<open>
  \<^verbatim>\<open>window_average\<close> does return a table on a valid source without string cells when the
  downsampling check passes, there is a new timestamp and the window size is defined.
\<close>

lemma traverse_returns:
  assumes "\<And>v. v \<in> set xs \<Longrightarrow> \<exists>y. f v = Inr y"
  shows "\<exists>ys. traverse f xs = Inr ys"
  using assms
proof (induction xs)
  case Nil
  then show ?case by simp
next
  case (Cons a xs)
  from Cons.prems[of a] obtain y where "f a = Inr y" by auto
  moreover from Cons.IH Cons.prems obtain ys where "traverse f xs = Inr ys" by auto
  ultimately show ?case by simp
qed

lemma series_mean_returns:
  assumes "\<And>v. v \<in> set vs \<Longrightarrow> \<not> is_str v"
  shows "\<exists>y. series_mean d vs = Inr y"
proof -
  have "\<exists>y. mean_cell v = Inr y" if "v \<in> set vs" for v
    using assms[OF that] by (cases v) simp_all
  from traverse_returns[of vs mean_cell, OF this] obtain fs where
    "traverse mean_cell vs = Inr fs" by blast
  then show ?thesis by (simp add: series_mean_def Let_def)
qed

lemma window_value_returns:
  assumes "\<And>v. v \<in> set (col_vals c) \<Longrightarrow> \<not> is_str v"
  shows "\<exists>y. window_value x c w t = Inr y"
proof -
  have "v \<in> set (col_vals c)" if "v \<in> set (window_cells x (col_vals c) w t)"
    for v using that by (auto simp: window_cells_def dest: set_zip_rightD)
  with assms have "\<exists>y. series_mean (col_dtype c) (window_cells x (col_vals c) w t) = Inr y"
    by (intro series_mean_returns) blast
  then show ?thesis by (auto simp: window_value_def)
qed

lemma np_median_defined: "xs \<noteq> [] \<Longrightarrow> \<exists>r. np_median xs = Some r"
proof -
  assume "xs \<noteq> []"
  then have "np_median xs \<noteq> None"
    unfolding np_median_def Let_def by (cases "odd (length xs)") simp_all
  then show ?thesis by (cases "np_median xs") simp_all
qed

lemma window_average_returns:
  assumes cd: "check_data data ''timestamp [ns]'' = Inr ()"
      and x: "int_values (the (map_of (columns data) ''timestamp [ns]'')) = Inr x"
      and n: "\<not> float_less (np_median (np_diff (sort new_ts))) (np_mean (np_diff x))"
      and ne: "new_ts \<noteq> []"
      and ws: "window_size = None \<longrightarrow> 2 \<le> length new_ts"
      and num: "\<forall>(name, c) \<in> set (value_columns data). \<forall>v \<in> set (col_vals c). \<not> is_str v"
  shows "\<exists>out. window_average new_ts data window_size = Inr out"
proof -
  let ?ts = "sort new_ts"
  have "\<exists>w. (case window_size of None \<Rightarrow> default_window_size (np_median (np_diff ?ts))
         | Some w \<Rightarrow> Inr w) = Inr w"
  proof (cases window_size)
    case None
    with ws have "length (np_diff ?ts) \<noteq> 0" by (simp add: np_diff_def)
    then have "np_diff ?ts \<noteq> []" by simp
    from np_median_defined[OF this] obtain r where "np_median (np_diff ?ts) = Some r" ..
    with None show ?thesis by (simp add: default_window_size_def)
  qed simp
  then obtain w where w: "(case window_size of
       None \<Rightarrow> default_window_size (np_median (np_diff ?ts)) | Some w \<Rightarrow> Inr w) = Inr w" ..
  from ne have "?ts \<noteq> []" by (metis length_sort length_0_conv)
  then obtain tcols where tc: "time_columns ?ts = Inr tcols"
    by (cases ?ts) (auto simp: time_columns_def)
  have "\<exists>y. window_column x w ?ts nc = Inr y" if "nc \<in> set (value_columns data)" for nc
  proof -
    obtain name c where nc: "nc = (name, c)" by (cases nc)
    with that num have "\<And>v. v \<in> set (col_vals c) \<Longrightarrow> \<not> is_str v" by auto
    then have "\<And>t. t \<in> set ?ts \<Longrightarrow> \<exists>y. window_value x c w t = Inr y"
      by (intro window_value_returns) blast
    from traverse_returns[of ?ts "window_value x c w", OF this] obtain fs where
      "traverse (window_value x c w) ?ts = Inr fs" by blast
    with nc show ?thesis by (simp add: window_column_def)
  qed
  from traverse_returns[of "value_columns data" "window_column x w ?ts", OF this] obtain vcols
    where "traverse (window_column x w ?ts) (value_columns data) = Inr vcols" by blast
  with cd x n w tc show ?thesis by (simp add: window_average_def Let_def)
qed

subsection \<open>\<^verbatim>\<open>interpolate\<close> on float columns\<close>

text \<open>
  On a valid source table whose value columns are all float columns, \<^verbatim>\<open>interpolate\<close>
  returns a table for every non-empty choice of new timestamps, inside the source's range
  or not.
\<close>

lemma interpolate_float_returns:
  assumes cd: "check_data data ''timestamp [ns]'' = Inr ()"
      and x: "int_values (the (map_of (columns data) ''timestamp [ns]'')) = Inr x"
      and xne: "x \<noteq> []"
      and ne: "new_ts \<noteq> []"
      and cols: "\<forall>(name, c) \<in> set (value_columns data).
                   col_dtype c = Float64 \<and> wt_column c \<and> length (col_vals c) = length x"
  shows "\<exists>out. interpolate new_ts data fk ok = Inr out"
proof -
  let ?ts = "sort new_ts"
  from ne have "?ts \<noteq> []" by (metis length_sort length_0_conv)
  then obtain tcols where tc: "time_columns ?ts = Inr tcols"
    by (cases ?ts) (auto simp: time_columns_def)
  have "\<exists>y. interpolate_column fk ok x ?ts nc = Inr y" if "nc \<in> set (value_columns data)" for nc
  proof -
    obtain name c where nc: "nc = (name, c)" by (cases nc)
    with that cols have d: "col_dtype c = Float64" and wt: "wt_column c"
      and l: "length (col_vals c) = length x" by auto
    have "to_float64 v = Inr (num_of v)" if "v \<in> set (col_vals c)" for v
    proof -
      from wt that d have w: "wt_val Float64 v" by (simp add: wt_column_def list_all_iff)
      then have "exact_cell v" by (cases v) simp_all
      with w show ?thesis by (intro to_float64_wt[of Float64 v]) simp_all
    qed
    then have "traverse to_float64 (col_vals c) = Inr (map num_of (col_vals c))"
      by (rule traverse_Inr_map)
    then obtain ys where "interp1d fk x (col_vals c) ?ts = Inr ys"
      using l xne by (simp add: interp1d_def)
    then show ?thesis using nc d by (simp add: interpolate_column_def astype_def)
  qed
  from traverse_returns[of "value_columns data" "interpolate_column fk ok x ?ts", OF this]
  obtain vcols where
    "traverse (interpolate_column fk ok x ?ts) (value_columns data) = Inr vcols" by blast
  with cd x tc show ?thesis by (simp add: interpolate_def Let_def)
qed

subsection \<open>\<^verbatim>\<open>crop\<close> on an example\<close>

lemma crop_example:
  "crop mixed_tab (Some 5) None ''timestamp'' =
     Inr \<lparr>index = [1, 2], columns =
       [(''timestamp [ns]'', \<lparr>col_dtype = Int64, col_vals = [VInt 10, VInt 20]\<rparr>),
        (''time [s]'',
         \<lparr>col_dtype = Float64, col_vals = [VFloat (1 / 100000000), VFloat (1 / 50000000)]\<rparr>),
        (''gaze x [px]'', \<lparr>col_dtype = Float64, col_vals = [VFloat 2, VNaN]\<rparr>),
        (''worn'', \<lparr>col_dtype = Int64, col_vals = [VInt 0, VInt 1]\<rparr>)]\<rparr>"
  by code_simp

subsection \<open>What the operations do to their inputs\<close>

text \<open>
  \<^verbatim>\<open>crop\<close>, \<^verbatim>\<open>interpolate\<close> and \<^verbatim>\<open>window_average\<close> build new tables and never
  assign into \<^verbatim>\<open>data\<close>; \<^verbatim>\<open>concat_streams\<close> hands the recording back unchanged
  unless it is asked to work in place.
\<close>

lemma resample_and_merge_keeps_recording:
  assumes "resample_and_merge new_ts fk ok False info (df, rec) = Inr (out, rec')"
  shows "rec' = rec"
  using assms
proof (induction info arbitrary: df rec)
  case Nil
  then show ?case by simp
next
  case (Cons i rest)
  from Cons.prems obtain s resamp s' where
    g: "get_stream rec (info_stream i) = Some s" and
    si: "stream_interpolate s new_ts fk ok False = Inr (resamp, s')" and
    rest: "resample_and_merge new_ts fk ok False rest
             (merge_frames df resamp, set_stream rec (info_stream i) s') = Inr (out, rec')"
    by (auto split: option.splits sum.splits if_splits prod.splits)
  from si have "s' = s" by (auto simp: stream_interpolate_def split: sum.splits)
  with g have "set_stream rec (info_stream i) s' = rec"
    by (cases "info_stream i") (simp_all add: get_stream_def set_stream_def)
  with Cons.IH rest show ?case by simp
qed

lemma concat_streams_default_keeps_recording:
  assumes "concat_streams rec stream_names sampling_freq fk ok False = Inr (out, rec')"
  shows "rec' = rec"
  using assms
  by (auto simp: concat_streams_def Let_def split: sum.splits if_splits
      dest: resample_and_merge_keeps_recording)

text \<open>
  C7 says that every operation leaves its input tables unchanged unless the caller asks
  for the replacement in place. \<^verbatim>\<open>concat_events\<close> does not: it writes into the event
  tables of the recording. After concatenating the blinks and fixations of \<open>rec3\<close>,
  the recording's blink table has gained the column \<^verbatim>\<open>type\<close> (and so has its
  fixation table).
\<close>

theorem concat_events_mutates_sources:
  "result_recording (concat_events [0, 2, 3, 1] rec3 (NameList [''blinks'', ''fixations'']))
     = Some rec3_after \<and>
   rec3_after \<noteq> rec3 \<and>
   blinks rec3 = Some blinks_tab \<and>
   blinks rec3_after = Some blinks_typed \<and>
   map fst (columns blinks_tab)
     = [''blink id'', ''start timestamp [ns]'', ''end timestamp [ns]'', ''duration [ms]''] \<and>
   map fst (columns blinks_typed)
     = [''blink id'', ''start timestamp [ns]'', ''end timestamp [ns]'', ''duration [ms]'',
        ''type'']"
  by code_simp

end
